theory Spec2Isabelle
  imports Complex_Main
begin

section \<open>Data model (agents/schemas.py)\<close>

text \<open>
  Python \<open>float\<close> values (scores, confidences, thresholds, elapsed times) are modelled by
  exact reals: the formulas of the source are kept as written, rounding is left out.
  Python \<open>str\<close> is \<open>string\<close>; the text functions below treat ASCII text.
  Field names are those of the source where they are free: the fields \<open>score\<close> and
  \<open>confidence\<close> of \<open>ConnectionScore\<close> are \<open>score_value\<close> and \<open>score_confidence\<close>, since
  \<open>DetectedConnection\<close> and \<open>ExtractedFact\<close> use the same names. The \<open>metadata\<close>
  dictionary of a fact, which no code reads, is left out. Calls of the logger are left
  out throughout.
\<close>

datatype ProcessingStatus = PENDING | IN_PROGRESS | COMPLETED | FAILED | PARTIAL

datatype FactType =
  PERSON | ORGANIZATION | LOCATION | EVENT | CONCEPT | RELATIONSHIP | TEMPORAL | NUMERIC | OTHER

record ExtractedFact =
  fact :: string
  confidence :: real
  fact_type :: FactType
  entities :: "string list"
  source_context :: "string option"

record ConnectionScore =
  score_value :: real
  score_confidence :: real
  reasoning :: string
  connection_type :: string

text \<open>
  The \<open>metadata\<close> dictionary of a connection always holds the key \<open>detection_method\<close>
  and one payload key; the three shapes the detector builds are the three constructors.
\<close>

datatype ConnectionMetadata =
  EntityOverlap "string list"
  | SemanticSimilarity "string list"
  | TemporalAnalysis "string list list"

record DetectedConnection =
  source_fact :: string
  target_fact :: string
  relationship :: string
  score :: ConnectionScore
  evidence :: "string list"
  metadata :: ConnectionMetadata

record ConnectionDetectionOutput =
  connections :: "DetectedConnection list"
  total_connections :: nat
  high_relevance_connections :: "DetectedConnection list"
  threshold_used :: real
  processing_time :: real
  status :: ProcessingStatus

section \<open>Text helpers of the Python runtime\<close>

text \<open>\<open>sep.join(xs)\<close>.\<close>

fun join :: "string \<Rightarrow> string list \<Rightarrow> string" where
  "join sep [] = []"
| "join sep [x] = x"
| "join sep (x # y # ys) = x @ sep @ join sep (y # ys)"

text \<open>\<open>str.lower()\<close> on ASCII letters; every other character is kept.\<close>

definition lower_char :: "char \<Rightarrow> char" where
  "lower_char c =
     (case map_of (zip ''ABCDEFGHIJKLMNOPQRSTUVWXYZ'' ''abcdefghijklmnopqrstuvwxyz'') c of
        Some d \<Rightarrow> d
      | None \<Rightarrow> c)"

definition lower :: "string \<Rightarrow> string" where
  "lower s = map lower_char s"

text \<open>
  \<open>str.split()\<close> without arguments: the words between runs of whitespace, no empty
  word. The ASCII whitespace characters are tab, line feed, vertical tab, form feed,
  carriage return, the four separators 0x1C..0x1F and the space.
\<close>

definition is_space :: "char \<Rightarrow> bool" where
  "is_space c \<longleftrightarrow>
     c \<in> set [CHR 0x09, CHR 0x0A, CHR 0x0B, CHR 0x0C, CHR 0x0D,
                CHR 0x1C, CHR 0x1D, CHR 0x1E, CHR 0x1F, CHR 0x20]"

fun split_from :: "string \<Rightarrow> string \<Rightarrow> string list" where
  "split_from w [] = (if w = [] then [] else [w])"
| "split_from w (c # cs) =
     (if is_space c then (if w = [] then split_from [] cs else w # split_from [] cs)
      else split_from (w @ [c]) cs)"

definition split :: "string \<Rightarrow> string list" where
  "split s = split_from [] s"

text \<open>
  A Python \<open>set\<close> of strings is a duplicate-free list. Python leaves the iteration order
  of a set open; the model lists the elements in the order of their first occurrence.
  \<open>set_of\<close> is \<open>set(xs)\<close>, \<open>set_inter\<close> is \<open>a & b\<close>, \<open>set_diff\<close> is \<open>a - b\<close>.
\<close>

definition set_of :: "string list \<Rightarrow> string list" where
  "set_of xs = remdups xs"

definition set_inter :: "string list \<Rightarrow> string list \<Rightarrow> string list" where
  "set_inter a b = filter (\<lambda>x. x \<in> set b) a"

definition set_diff :: "string list \<Rightarrow> string list \<Rightarrow> string list" where
  "set_diff a b = filter (\<lambda>x. x \<notin> set b) a"

text \<open>
  \<open>repr\<close> of a set of strings, as an f-string prints it: the elements in single quotes
  between braces (the escapes of \<open>repr\<close> for quotes and control characters are left out).
\<close>

definition repr_set :: "string list \<Rightarrow> string" where
  "repr_set xs = ''{'' @ join '', '' (map (\<lambda>x. [CHR 0x27] @ x @ [CHR 0x27]) xs) @ ''}''"

section \<open>Relation scoring (ConnectionDetectionSystem._simulate_connection_detection)\<close>

text \<open>The body of the inner loop over pairs of facts: entity overlap.\<close>

definition common_entities :: "ExtractedFact \<Rightarrow> ExtractedFact \<Rightarrow> string list" where
  "common_entities fact1 fact2 = set_inter (set_of (entities fact1)) (set_of (entities fact2))"

definition entity_overlap :: "ExtractedFact \<Rightarrow> ExtractedFact \<Rightarrow> DetectedConnection list" where
  "entity_overlap fact1 fact2 =
     (let common = common_entities fact1 fact2 in
      if common \<noteq> [] then
        (let score_value0 = 0.7 + (real (length common) * 0.1);
             score_value1 = min score_value0 1.0
         in [\<lparr>source_fact = fact fact1,
              target_fact = fact fact2,
              relationship = ''Share common entities: '' @ join '', '' common,
              score = \<lparr>score_value = score_value1,
                       score_confidence = 0.85,
                       reasoning = ''Facts share entities '' @ repr_set common
                                   @ '' which indicates a relationship'',
                       connection_type = ''factual''\<rparr>,
              evidence = [''Both facts mention: '' @ join '', '' common],
              metadata = EntityOverlap common\<rparr>])
      else [])"

text \<open>
  The double loop \<open>for i, fact1 in enumerate(new_facts): for j, fact2 in
  enumerate(new_facts[i+1:], i+1)\<close>: every fact against the facts after it.
\<close>

fun pair_connections :: "ExtractedFact list \<Rightarrow> DetectedConnection list" where
  "pair_connections [] = []"
| "pair_connections (fact1 # rest) =
     concat (map (entity_overlap fact1) rest) @ pair_connections rest"

text \<open>The body of the second loop: keyword matching of one fact against the corpus.\<close>

definition stop_words :: "string list" where
  "stop_words = [''the'', ''a'', ''an'', ''and'', ''or'', ''but'', ''in'', ''on'', ''at'',
                 ''to'', ''for'', ''of'', ''with'', ''by'', ''is'', ''are'', ''was'', ''were'']"

definition meaningful_words :: "ExtractedFact \<Rightarrow> string \<Rightarrow> string list" where
  "meaningful_words f existing_knowledge =
     (let fact_words = set_of (split (lower (fact f)));
          knowledge_words = set_of (split (lower existing_knowledge));
          common_words = set_inter fact_words knowledge_words
      in set_diff common_words stop_words)"

text \<open>\<open>str(n)\<close> for a natural number, used by the f-strings.\<close>

fun digit_char :: "nat \<Rightarrow> char" where
  "digit_char n = (''0123456789'' ! (n mod 10))"

function str_nat :: "nat \<Rightarrow> string" where
  "str_nat n = (if n < 10 then [digit_char n] else str_nat (n div 10) @ [digit_char n])"
  by pat_completeness auto
termination
  by (relation "measure id") auto

declare str_nat.simps [simp del]

definition knowledge_match :: "ExtractedFact \<Rightarrow> string \<Rightarrow> DetectedConnection list" where
  "knowledge_match f existing_knowledge =
     (let meaningful = meaningful_words f existing_knowledge in
      if length meaningful \<ge> 2 then
        (let score_value0 = 0.5 + (real (length meaningful) * 0.05);
             score_value1 = min score_value0 0.9
         in [\<lparr>source_fact = fact f,
              target_fact = ''Existing knowledge in the knowledge base'',
              relationship = ''Semantic similarity through shared concepts: ''
                             @ join '', '' (take 3 meaningful),
              score = \<lparr>score_value = score_value1,
                       score_confidence = 0.70,
                       reasoning = ''Shares '' @ str_nat (length meaningful)
                                   @ '' meaningful concepts with existing knowledge'',
                       connection_type = ''semantic''\<rparr>,
              evidence = [''Shared concepts: '' @ join '', '' (take 5 meaningful)],
              metadata = SemanticSimilarity meaningful\<rparr>])
      else [])"

text \<open>The temporal step: one connection between the first two facts of type temporal.\<close>

definition temporal_connection :: "ExtractedFact list \<Rightarrow> DetectedConnection list" where
  "temporal_connection new_facts =
     (case filter (\<lambda>f. fact_type f = TEMPORAL) new_facts of
        t0 # t1 # ts \<Rightarrow>
          [\<lparr>source_fact = fact t0,
            target_fact = fact t1,
            relationship = ''Temporal relationship - events occurring in related time periods'',
            score = \<lparr>score_value = 0.75,
                     score_confidence = 0.80,
                     reasoning = ''Both facts contain temporal information suggesting a timeline relationship'',
                     connection_type = ''temporal''\<rparr>,
            evidence = [''Both facts contain time-related information''],
            metadata = TemporalAnalysis (map entities (t0 # t1 # ts))\<rparr>]
      | _ \<Rightarrow> [])"

definition simulate_connection_detection ::
  "ExtractedFact list \<Rightarrow> string \<Rightarrow> real \<Rightarrow> DetectedConnection list" where
  "simulate_connection_detection new_facts existing_knowledge threshold =
     pair_connections new_facts
     @ concat (map (\<lambda>f. knowledge_match f existing_knowledge) new_facts)
     @ temporal_connection new_facts"

text \<open>
  The index pairs \<open>(i, j)\<close> with \<open>i < j < n\<close>, in the order the double loop visits them:
  the unordered pairs of \<open>n\<close> facts.
\<close>

definition index_pairs :: "nat \<Rightarrow> (nat \<times> nat) list" where
  "index_pairs n = concat (map (\<lambda>i. map (\<lambda>j. (i, j)) [Suc i..<n]) [0..<n])"

section \<open>Connection detection (ConnectionDetectionSystem)\<close>

text \<open>
  A raised Python exception, by its message. \<open>RequestError\<close> is \<open>httpx.RequestError\<close>;
  \<open>Exception\<close> stands for every exception of another class.
\<close>

datatype exn = RequestError string | Exception string

text \<open>Values that \<open>json.dumps\<close> serialises; a dictionary lists its items in order.\<close>

datatype json =
  JNull | JBool bool | JInt int | JFloat real | JStr string
  | JList "json list" | JDict "(string \<times> json) list"

text \<open>
  The \<open>options\<close> dictionary with its three recognised keys, each present or absent:
  \<open>threshold\<close> (a float), \<open>max_connections\<close> (an integer), \<open>connection_types\<close> (a list
  of strings). Dictionaries with other keys, or with values of other types, are the
  subject of the second model of \<open>detect_connections\<close> further below.
\<close>

record Options =
  opt_threshold :: "real option"
  opt_max_connections :: "int option"
  opt_connection_types :: "string list option"

definition empty_options :: Options where
  "empty_options =
     \<lparr>opt_threshold = None, opt_max_connections = None, opt_connection_types = None\<rparr>"

text \<open>The dictionary as a JSON value, its present keys in sorted order.\<close>

definition options_json :: "Options \<Rightarrow> json" where
  "options_json opts =
     JDict ((case opt_connection_types opts of
               None \<Rightarrow> []
             | Some ts \<Rightarrow> [(''connection_types'', JList (map JStr ts))])
          @ (case opt_max_connections opts of
               None \<Rightarrow> []
             | Some n \<Rightarrow> [(''max_connections'', JInt n)])
          @ (case opt_threshold opts of
               None \<Rightarrow> []
             | Some t \<Rightarrow> [(''threshold'', JFloat t)]))"

text \<open>
  The library functions the code calls and this development does not define:
  \<open>hashlib.md5(s.encode()).hexdigest()\<close>, the built-in \<open>hash\<close> on strings (fixed within
  one process), and \<open>json.dumps(v, sort_keys=b)\<close> with the flag first.
\<close>

record runtime =
  md5_hexdigest :: "string \<Rightarrow> string"
  hash_str :: "string \<Rightarrow> int"
  json_dumps :: "bool \<Rightarrow> json \<Rightarrow> string"

definition str_int :: "int \<Rightarrow> string" where
  "str_int i = (if i < 0 then ''-'' @ str_nat (nat (- i)) else str_nat (nat i))"

text \<open>
  \<open>_generate_cache_key\<close>: the digest of
  \<open>f"{len(new_facts)}-{hash(existing_knowledge)}-{json.dumps(options, sort_keys=True)}"\<close>.
\<close>

definition generate_cache_key ::
  "runtime \<Rightarrow> ExtractedFact list \<Rightarrow> string \<Rightarrow> Options \<Rightarrow> string" where
  "generate_cache_key rt new_facts existing_knowledge options =
     (let content = str_nat (length new_facts) @ ''-''
                    @ str_int (hash_str rt existing_knowledge) @ ''-''
                    @ json_dumps rt True (options_json options)
      in md5_hexdigest rt content)"

text \<open>
  The dictionary \<open>stats\<close>; its key \<open>high_relevance_connections\<close> is the field
  \<open>stat_high_relevance_connections\<close>.
\<close>

record DetectionStats =
  total_detections :: nat
  connections_found :: nat
  stat_high_relevance_connections :: nat
  cached_results :: nat
  average_processing_time :: real
  last_detection :: "string option"

record ConnectionDetectionSystem =
  threshold :: real
  connection_cache :: "string \<rightharpoonup> ConnectionDetectionOutput"
  stats :: DetectionStats

text \<open>
  The two readings of the clock in one call: \<open>start_time.isoformat()\<close> and the seconds
  between \<open>start_time\<close> and the second \<open>datetime.now()\<close>.
\<close>

record clock =
  start_time_iso :: string
  elapsed_seconds :: real

text \<open>\<open>options or {}\<close> and \<open>options.get("threshold", self.threshold)\<close>.\<close>

definition or_empty :: "Options option \<Rightarrow> Options" where
  "or_empty options = (case options of None \<Rightarrow> empty_options | Some opts \<Rightarrow> opts)"

definition get_threshold :: "Options \<Rightarrow> real \<Rightarrow> real" where
  "get_threshold opts dflt = (case opt_threshold opts of None \<Rightarrow> dflt | Some t \<Rightarrow> t)"

text \<open>
  \<open>detect_connections\<close> on typed options (the options as they arrive, with entries of
  any type, follow further below). The state of the system is passed in and returned. The scoring
  step is a parameter that returns the connections or the exception it raised, so that
  the \<open>except\<close> branch is a branch of the model; the repository's scoring step is
  \<open>scoring_step\<close> below. The counter \<open>total_detections\<close> is incremented before the
  \<open>try\<close> block. The values \<open>max_connections\<close> and \<open>connection_types\<close> are read from the
  options and only printed into the request text, which is not used.
\<close>

definition detect_connections ::
  "runtime \<Rightarrow> (ExtractedFact list \<Rightarrow> string \<Rightarrow> real \<Rightarrow> exn + DetectedConnection list)
   \<Rightarrow> clock \<Rightarrow> ConnectionDetectionSystem \<Rightarrow> ExtractedFact list \<Rightarrow> string
   \<Rightarrow> Options option \<Rightarrow> ConnectionDetectionOutput \<times> ConnectionDetectionSystem" where
  "detect_connections rt scoring clk self new_facts existing_knowledge options =
     (let self1 = self\<lparr>stats := (stats self)
                    \<lparr>total_detections := total_detections (stats self) + 1\<rparr>\<rparr>;
          options1 = or_empty options;
          threshold1 = get_threshold options1 (threshold self1);
          max_connections = (case opt_max_connections options1 of None \<Rightarrow> 50 | Some n \<Rightarrow> n);
          connection_types =
            (case opt_connection_types options1 of None \<Rightarrow> [''all''] | Some ts \<Rightarrow> ts);
          cache_key = generate_cache_key rt new_facts existing_knowledge options1
      in case connection_cache self1 cache_key of
           Some cached_result \<Rightarrow>
             (cached_result,
              self1\<lparr>stats := (stats self1)
                       \<lparr>cached_results := cached_results (stats self1) + 1\<rparr>\<rparr>)
         | None \<Rightarrow>
             (case scoring new_facts existing_knowledge threshold1 of
                Inl e \<Rightarrow>
                  (\<lparr>connections = [],
                    total_connections = 0,
                    high_relevance_connections = [],
                    threshold_used = threshold1,
                    processing_time = elapsed_seconds clk,
                    status = FAILED\<rparr>,
                   self1)
              | Inr conns \<Rightarrow>
                  (let high = filter (\<lambda>conn. score_value (score conn) \<ge> threshold1) conns;
                       processing_time1 = elapsed_seconds clk;
                       detection_output =
                         \<lparr>connections = conns,
                          total_connections = length conns,
                          high_relevance_connections = high,
                          threshold_used = threshold1,
                          processing_time = processing_time1,
                          status = COMPLETED\<rparr>;
                       self2 = self1\<lparr>connection_cache :=
                                 (connection_cache self1)(cache_key \<mapsto> detection_output)\<rparr>;
                       st = stats self2;
                       total_time = average_processing_time st
                                      * real (total_detections st - 1) + processing_time1;
                       st1 = st\<lparr>connections_found := connections_found st + length conns,
                                stat_high_relevance_connections :=
                                  stat_high_relevance_connections st + length high,
                                last_detection := Some (start_time_iso clk),
                                average_processing_time :=
                                  total_time / real (total_detections st)\<rparr>
                   in (detection_output, self2\<lparr>stats := st1\<rparr>))))"

text \<open>The scoring step of the repository: the simulation, which raises nothing.\<close>

definition scoring_step ::
  "ExtractedFact list \<Rightarrow> string \<Rightarrow> real \<Rightarrow> exn + DetectedConnection list" where
  "scoring_step new_facts existing_knowledge thr =
     Inr (simulate_connection_detection new_facts existing_knowledge thr)"

text \<open>
  \<open>ConnectionDetectionSystem.__init__\<close>: \<open>threshold or config.notifications.threshold\<close>
  (an absent threshold and the threshold 0.0 both give the configured one), an empty
  cache and zeroed statistics.
\<close>

definition init_system :: "real \<Rightarrow> real option \<Rightarrow> ConnectionDetectionSystem" where
  "init_system config_threshold thr =
     \<lparr>threshold = (case thr of None \<Rightarrow> config_threshold
                              | Some t \<Rightarrow> if t = 0 then config_threshold else t),
      connection_cache = Map.empty,
      stats = \<lparr>total_detections = 0, connections_found = 0,
               stat_high_relevance_connections = 0, cached_results = 0,
               average_processing_time = 0.0, last_detection = None\<rparr>\<rparr>"

subsection \<open>detect_connections on the options as they arrive\<close>

text \<open>
  The caller passes the \<open>options\<close> dictionary of the request on as it is
  (\<open>Dict[str, Any]\<close>), and \<open>detect_connections\<close> reads its entries without checking
  them. Here the dictionary is the list of its items, each value a JSON value, so that
  the entry \<open>threshold\<close> can be \<open>None\<close>, a string or any other such value. The function
  above is this one on options whose entries have the types of the specification
  (lemma \<open>detect_connections_any_typed\<close>).
\<close>

text \<open>
  The right operand of \<open>conn.score.score >= threshold\<close>: a float, an integer or a
  boolean compares as a number, every other value makes the comparison raise
  \<open>TypeError\<close>.
\<close>

definition as_number :: "json \<Rightarrow> real option" where
  "as_number v =
     (case v of
        JFloat r \<Rightarrow> Some r
      | JInt i \<Rightarrow> Some (real_of_int i)
      | JBool b \<Rightarrow> Some (if b then 1 else 0)
      | _ \<Rightarrow> None)"

text \<open>
  The validation of a value for the field \<open>threshold_used: float\<close> of
  \<open>ConnectionDetectionOutput\<close>: a number is taken, a string is converted by
  \<open>float_of_str\<close> (the conversion of the library, which refuses most strings), \<open>None\<close>
  and every other value is refused with \<open>ValidationError\<close>.
\<close>

definition validate_float :: "(string \<Rightarrow> real option) \<Rightarrow> json \<Rightarrow> real option" where
  "validate_float float_of_str v = (case v of JStr s \<Rightarrow> float_of_str s | _ \<Rightarrow> as_number v)"

text \<open>
  The list comprehension that filters by threshold: it compares once per connection,
  so it raises only when there is a connection to compare.
\<close>

definition filter_by_threshold ::
  "json \<Rightarrow> DetectedConnection list \<Rightarrow> exn + DetectedConnection list" where
  "filter_by_threshold v conns =
     (if conns = [] then Inr []
      else case as_number v of
             None \<Rightarrow> Inl (Exception ''TypeError'')
           | Some t \<Rightarrow> Inr (filter (\<lambda>conn. score_value (score conn) \<ge> t) conns))"

text \<open>\<open>options or {}\<close> and \<open>options.get("threshold", self.threshold)\<close> on a dictionary.\<close>

definition dict_or_empty :: "(string \<times> json) list option \<Rightarrow> (string \<times> json) list" where
  "dict_or_empty options = (case options of None \<Rightarrow> [] | Some d \<Rightarrow> d)"

definition get_threshold_any :: "(string \<times> json) list \<Rightarrow> real \<Rightarrow> json" where
  "get_threshold_any d dflt =
     (case map_of d ''threshold'' of None \<Rightarrow> JFloat dflt | Some v \<Rightarrow> v)"

definition generate_cache_key_any ::
  "runtime \<Rightarrow> ExtractedFact list \<Rightarrow> string \<Rightarrow> (string \<times> json) list \<Rightarrow> string" where
  "generate_cache_key_any rt new_facts existing_knowledge options =
     (let content = str_nat (length new_facts) @ ''-''
                    @ str_int (hash_str rt existing_knowledge) @ ''-''
                    @ json_dumps rt True (JDict options)
      in md5_hexdigest rt content)"

text \<open>
  The \<open>try\<close> block, entered after \<open>total_detections\<close> has been incremented. It returns
  the output with the new state, or the exception raised in it: by the scoring step, by
  the comparison with the threshold, or by the validation of the output. All of these
  come before the cache and the statistics are written, so that an exception leaves
  the state as it was on entry to the block.
\<close>

definition detection_attempt ::
  "runtime \<Rightarrow> (string \<Rightarrow> real option)
   \<Rightarrow> (ExtractedFact list \<Rightarrow> string \<Rightarrow> json \<Rightarrow> exn + DetectedConnection list)
   \<Rightarrow> clock \<Rightarrow> ConnectionDetectionSystem \<Rightarrow> ExtractedFact list \<Rightarrow> string
   \<Rightarrow> (string \<times> json) list
   \<Rightarrow> exn + ConnectionDetectionOutput \<times> ConnectionDetectionSystem" where
  "detection_attempt rt float_of_str scoring clk self1 new_facts existing_knowledge options1 =
     (let threshold1 = get_threshold_any options1 (threshold self1);
          cache_key = generate_cache_key_any rt new_facts existing_knowledge options1
      in case connection_cache self1 cache_key of
           Some cached_result \<Rightarrow>
             Inr (cached_result,
                  self1\<lparr>stats := (stats self1)
                           \<lparr>cached_results := cached_results (stats self1) + 1\<rparr>\<rparr>)
         | None \<Rightarrow>
             (case scoring new_facts existing_knowledge threshold1 of
                Inl e \<Rightarrow> Inl e
              | Inr conns \<Rightarrow>
                  (case filter_by_threshold threshold1 conns of
                     Inl e \<Rightarrow> Inl e
                   | Inr high \<Rightarrow>
                       (case validate_float float_of_str threshold1 of
                          None \<Rightarrow> Inl (Exception ''ValidationError'')
                        | Some t \<Rightarrow>
                            (let processing_time1 = elapsed_seconds clk;
                                 detection_output =
                                   \<lparr>connections = conns,
                                    total_connections = length conns,
                                    high_relevance_connections = high,
                                    threshold_used = t,
                                    processing_time = processing_time1,
                                    status = COMPLETED\<rparr>;
                                 self2 = self1\<lparr>connection_cache :=
                                   (connection_cache self1)(cache_key \<mapsto> detection_output)\<rparr>;
                                 st = stats self2;
                                 total_time = average_processing_time st
                                      * real (total_detections st - 1) + processing_time1;
                                 st1 = st\<lparr>connections_found := connections_found st + length conns,
                                          stat_high_relevance_connections :=
                                            stat_high_relevance_connections st + length high,
                                          last_detection := Some (start_time_iso clk),
                                          average_processing_time :=
                                            total_time / real (total_detections st)\<rparr>
                             in Inr (detection_output, self2\<lparr>stats := st1\<rparr>))))))"

text \<open>
  \<open>detect_connections\<close>: the \<open>except Exception\<close> branch builds the failed output, again
  with \<open>threshold_used=threshold\<close>; when that value is refused by the validation, the
  exception is raised inside the handler and leaves the function.
\<close>

definition detect_connections_any ::
  "runtime \<Rightarrow> (string \<Rightarrow> real option)
   \<Rightarrow> (ExtractedFact list \<Rightarrow> string \<Rightarrow> json \<Rightarrow> exn + DetectedConnection list)
   \<Rightarrow> clock \<Rightarrow> ConnectionDetectionSystem \<Rightarrow> ExtractedFact list \<Rightarrow> string
   \<Rightarrow> (string \<times> json) list option
   \<Rightarrow> (exn + ConnectionDetectionOutput) \<times> ConnectionDetectionSystem" where
  "detect_connections_any rt float_of_str scoring clk self new_facts existing_knowledge options =
     (let self1 = self\<lparr>stats := (stats self)
                    \<lparr>total_detections := total_detections (stats self) + 1\<rparr>\<rparr>;
          options1 = dict_or_empty options
      in case detection_attempt rt float_of_str scoring clk self1 new_facts existing_knowledge
                options1 of
           Inr (detection_output, self2) \<Rightarrow> (Inr detection_output, self2)
         | Inl e \<Rightarrow>
             (case validate_float float_of_str (get_threshold_any options1 (threshold self1)) of
                None \<Rightarrow> (Inl (Exception ''ValidationError''), self1)
              | Some t \<Rightarrow>
                  (Inr \<lparr>connections = [],
                        total_connections = 0,
                        high_relevance_connections = [],
                        threshold_used = t,
                        processing_time = elapsed_seconds clk,
                        status = FAILED\<rparr>,
                   self1)))"

text \<open>
  The scoring step of the repository on any threshold value: the simulation does not
  read its threshold argument (lemma \<open>simulate_ignores_threshold\<close>).
\<close>

definition scoring_step_any ::
  "ExtractedFact list \<Rightarrow> string \<Rightarrow> json \<Rightarrow> exn + DetectedConnection list" where
  "scoring_step_any new_facts existing_knowledge v =
     Inr (simulate_connection_detection new_facts existing_knowledge
            (case as_number v of None \<Rightarrow> 0 | Some t \<Rightarrow> t))"

text \<open>The items of a typed \<open>options\<close> dictionary.\<close>

definition options_items :: "Options \<Rightarrow> (string \<times> json) list" where
  "options_items opts =
     (case opt_connection_types opts of
        None \<Rightarrow> []
      | Some ts \<Rightarrow> [(''connection_types'', JList (map JStr ts))])
     @ (case opt_max_connections opts of
          None \<Rightarrow> []
        | Some n \<Rightarrow> [(''max_connections'', JInt n)])
     @ (case opt_threshold opts of
          None \<Rightarrow> []
        | Some t \<Rightarrow> [(''threshold'', JFloat t)])"

section \<open>Notification channels (agents/notification_manager.py)\<close>

text \<open>
  A notification event; \<open>timestamp\<close> holds \<open>event.timestamp.isoformat()\<close>, and the
  field \<open>channels\<close> of the source is \<open>target_channels\<close>.
\<close>

record NotificationEvent =
  event_id :: string
  event_type :: string
  message :: string
  severity :: string
  data :: "(string \<times> json) list"
  timestamp :: string
  target_channels :: "string list"
  sent :: bool

subsection \<open>FileNotificationChannel\<close>

record FileNotificationChannel =
  file_path :: string
  max_size_mb :: int
  max_size_bytes :: int

text \<open>The constructor (it also creates the parent directory, which is left out).\<close>

definition FileNotificationChannel_init :: "string \<Rightarrow> int \<Rightarrow> FileNotificationChannel" where
  "FileNotificationChannel_init path size_mb =
     \<lparr>file_path = path, max_size_mb = size_mb, max_size_bytes = size_mb * 1024 * 1024\<rparr>"

text \<open>
  \<open>Path.with_suffix\<close>: the suffix of a path is the part of its last component from the
  last dot on, unless that dot is the first or the last character of the component.
\<close>

definition path_name :: "string \<Rightarrow> string" where
  "path_name p = rev (takeWhile (\<lambda>c. c \<noteq> CHR ''/'') (rev p))"

definition path_suffix :: "string \<Rightarrow> string" where
  "path_suffix p =
     (let name = path_name p;
          ext = rev (takeWhile (\<lambda>c. c \<noteq> CHR ''.'') (rev name))
      in if ext \<noteq> [] \<and> Suc (length ext) < length name then CHR ''.'' # ext else [])"

definition with_suffix :: "string \<Rightarrow> string \<Rightarrow> string" where
  "with_suffix p suffix = take (length p - length (path_suffix p)) p @ suffix"

text \<open>
  The files the channel touches: the log file at \<open>file_path\<close> (\<open>None\<close> when it does not
  exist, otherwise its bytes) and the files made by renaming it, in order, each with its
  path and its bytes.
\<close>

record log_files =
  log_file :: "string option"
  backups :: "(string \<times> string) list"

text \<open>
  What the environment does during one send: the text of
  \<open>datetime.now().strftime('%Y%m%d_%H%M%S')\<close>, the exception that \<open>rename\<close> raises if any,
  and the exception that opening or writing the file raises if any.
\<close>

record file_io =
  now_stamp :: string
  rename_error :: "exn option"
  write_error :: "exn option"

text \<open>
  \<open>_rotate_if_needed\<close>: an exception raised in it is caught and logged there, the files
  stay as they are.
\<close>

definition rotate_if_needed ::
  "FileNotificationChannel \<Rightarrow> file_io \<Rightarrow> log_files \<Rightarrow> log_files" where
  "rotate_if_needed self io fs =
     (case log_file fs of
        None \<Rightarrow> fs
      | Some content \<Rightarrow>
          if int (length content) > max_size_bytes self then
            (let backup_path = with_suffix (file_path self) (''.'' @ now_stamp io @ ''.log'')
             in case rename_error io of
                  Some e \<Rightarrow> fs
                | None \<Rightarrow> fs\<lparr>log_file := None,
                              backups := backups fs @ [(backup_path, content)]\<rparr>)
          else fs)"

definition notification_data :: "NotificationEvent \<Rightarrow> json" where
  "notification_data event =
     JDict [(''timestamp'', JStr (timestamp event)),
            (''event_id'', JStr (event_id event)),
            (''event_type'', JStr (event_type event)),
            (''severity'', JStr (severity event)),
            (''message'', JStr (message event)),
            (''data'', JDict (data event))]"

text \<open>
  \<open>FileNotificationChannel.send_notification\<close>: rotate if needed, then append one line;
  an exception of the write gives \<open>False\<close>.
\<close>

definition file_send_notification ::
  "runtime \<Rightarrow> FileNotificationChannel \<Rightarrow> file_io \<Rightarrow> NotificationEvent \<Rightarrow> log_files
   \<Rightarrow> bool \<times> log_files" where
  "file_send_notification rt self io event fs =
     (let fs1 = rotate_if_needed self io fs;
          line = json_dumps rt False (notification_data event) @ [CHR 0x0A]
      in case write_error io of
           Some e \<Rightarrow> (False, fs1)
         | None \<Rightarrow>
             (True, fs1\<lparr>log_file :=
                      Some ((case log_file fs1 of None \<Rightarrow> [] | Some content \<Rightarrow> content)
                            @ line)\<rparr>))"

subsection \<open>WebhookNotificationChannel\<close>

record WebhookNotificationChannel =
  webhook_url :: string
  timeout :: int
  retries :: int

record http_response =
  status_code :: int
  text_body :: string

text \<open>What one send does to the outside: the POST requests and the sleeps, in order.\<close>

datatype webhook_effect = Post nat json | Sleep nat

definition webhook_payload :: "NotificationEvent \<Rightarrow> json" where
  "webhook_payload event =
     JDict [(''timestamp'', JStr (timestamp event)),
            (''event_id'', JStr (event_id event)),
            (''event_type'', JStr (event_type event)),
            (''severity'', JStr (severity event)),
            (''message'', JStr (message event)),
            (''data'', JDict (data event)),
            (''source'', JStr ''agentic_graphrag'')]"

text \<open>
  The loop \<open>for attempt in range(self.retries)\<close>, from \<open>attempt\<close> on. The server is the
  function \<open>post\<close>: its answer to the request of each attempt, a response or the exception
  that \<open>client.post\<close> raises. The result is the value returned from inside the loop,
  \<open>False\<close> after the loop, or the exception that leaves the loop.
\<close>

function webhook_attempts ::
  "WebhookNotificationChannel \<Rightarrow> (nat \<Rightarrow> json \<Rightarrow> exn + http_response) \<Rightarrow> json \<Rightarrow> nat
   \<Rightarrow> (exn + bool) \<times> webhook_effect list" where
  "webhook_attempts self post payload attempt =
     (if int attempt < retries self then
        (case post attempt payload of
           Inr response \<Rightarrow>
             if status_code response \<in> set [200, 201, 202] then (Inr True, [Post attempt payload])
             else (case webhook_attempts self post payload (Suc attempt) of
                     (r, effects) \<Rightarrow> (r, Post attempt payload # effects))
         | Inl (RequestError e) \<Rightarrow>
             if int attempt = retries self - 1 then (Inl (RequestError e), [Post attempt payload])
             else (case webhook_attempts self post payload (Suc attempt) of
                     (r, effects) \<Rightarrow> (r, Post attempt payload # Sleep (2 ^ attempt) # effects))
         | Inl (Exception e) \<Rightarrow> (Inl (Exception e), [Post attempt payload]))
      else (Inr False, []))"
  by pat_completeness auto
termination
  by (relation "measure (\<lambda>(self, post, payload, attempt). nat (retries self) - attempt)") auto

declare webhook_attempts.simps [simp del]

text \<open>
  \<open>WebhookNotificationChannel.send_notification\<close>: the outer \<open>except Exception\<close> turns an
  exception that leaves the loop into \<open>False\<close>.
\<close>

definition webhook_send_notification ::
  "WebhookNotificationChannel \<Rightarrow> (nat \<Rightarrow> json \<Rightarrow> exn + http_response) \<Rightarrow> NotificationEvent
   \<Rightarrow> bool \<times> webhook_effect list" where
  "webhook_send_notification self post event =
     (case webhook_attempts self post (webhook_payload event) 0 of
        (Inr result, effects) \<Rightarrow> (result, effects)
      | (Inl e, effects) \<Rightarrow> (False, effects))"

subsection \<open>NotificationManager\<close>

text \<open>
  A channel as the manager sees it: \<open>channel.send_notification(event)\<close> acts on the
  outside world and returns a boolean or raises.
\<close>

type_synonym 'w channel = "NotificationEvent \<Rightarrow> 'w \<Rightarrow> (exn + bool) \<times> 'w"

record NotificationStats =
  notifications_sent :: nat
  notifications_failed :: nat
  channels_active :: nat
  last_notification :: "string option"

record history_entry =
  entry_timestamp :: string
  entry_event_type :: string
  entry_message :: string
  channels_sent :: nat
  total_channels :: nat

text \<open>The dictionary \<open>channels\<close> lists its items in insertion order.\<close>

record 'w NotificationManager =
  notify_threshold :: real
  channels :: "(string \<times> 'w channel) list"
  enabled_channels :: "string list"
  notification_history :: "history_entry list"
  notification_stats :: NotificationStats

text \<open>
  The loop over \<open>self.channels.items()\<close>. Beside the success count and the world it
  returns, per channel in order, what the loop logs for it: the channel's name with the
  boolean it returned or the exception it raised.
\<close>

fun send_to_channels ::
  "(string \<times> 'w channel) list \<Rightarrow> NotificationEvent \<Rightarrow> nat \<Rightarrow> 'w
   \<Rightarrow> nat \<times> (string \<times> (exn + bool)) list \<times> 'w" where
  "send_to_channels [] event success_count w = (success_count, [], w)"
| "send_to_channels ((channel_name, channel) # rest) event success_count w =
     (case channel event w of
        (Inr success, w1) \<Rightarrow>
          (case send_to_channels rest event
                  (if success then success_count + 1 else success_count) w1 of
             (n, logged, w2) \<Rightarrow> (n, (channel_name, Inr success) # logged, w2))
      | (Inl e, w1) \<Rightarrow>
          (case send_to_channels rest event success_count w1 of
             (n, logged, w2) \<Rightarrow> (n, (channel_name, Inl e) # logged, w2)))"

text \<open>
  \<open>NotificationManager.send_notification\<close>; \<open>now_iso\<close> is \<open>datetime.now().isoformat()\<close>.
  It returns the boolean, the per-channel log, the manager and the world.
\<close>

definition manager_send_notification ::
  "string \<Rightarrow> 'w NotificationManager \<Rightarrow> NotificationEvent \<Rightarrow> 'w
   \<Rightarrow> bool \<times> (string \<times> (exn + bool)) list \<times> 'w NotificationManager \<times> 'w" where
  "manager_send_notification now_iso self event w =
     (if channels self = [] then (False, [], self, w)
      else
        (let total = length (channels self) in
         case send_to_channels (channels self) event 0 w of
           (success_count, logged, w1) \<Rightarrow>
             if success_count > 0 then
               (let st = notification_stats self;
                    st1 = st\<lparr>notifications_sent := notifications_sent st + 1,
                             last_notification := Some now_iso\<rparr>;
                    history1 = notification_history self
                               @ [\<lparr>entry_timestamp = timestamp event,
                                   entry_event_type = event_type event,
                                   entry_message = message event,
                                   channels_sent = success_count,
                                   total_channels = total\<rparr>];
                    history2 = (if length history1 > 100 then tl history1 else history1)
                in (success_count > 0, logged,
                    self\<lparr>notification_history := history2, notification_stats := st1\<rparr>, w1))
             else
               (let st = notification_stats self;
                    st1 = st\<lparr>notifications_failed := notifications_failed st + 1\<rparr>
                in (success_count > 0, logged, self\<lparr>notification_stats := st1\<rparr>, w1))))"

text \<open>
  For stating what the loop does, by position in \<open>self.channels\<close>: the world in which
  the channel at position \<open>i\<close> is called, which is the world the channels before it have
  left, and what that channel returns or raises there.
\<close>

definition world_before ::
  "(string \<times> 'w channel) list \<Rightarrow> NotificationEvent \<Rightarrow> 'w \<Rightarrow> nat \<Rightarrow> 'w" where
  "world_before chs event w i = foldl (\<lambda>w1 ch. snd (snd ch event w1)) w (take i chs)"

definition channel_outcome ::
  "(string \<times> 'w channel) list \<Rightarrow> NotificationEvent \<Rightarrow> 'w \<Rightarrow> nat \<Rightarrow> exn + bool" where
  "channel_outcome chs event w i = fst (snd (chs ! i) event (world_before chs event w i))"

section \<open>Concrete inputs\<close>

text \<open>
  A runtime for evaluating concrete calls: the digest is the text itself, the hash of a
  string is its length, and the serialiser prints the keys of a dictionary. The theorems
  below hold for every runtime; the concrete evaluations fix this one.
\<close>

definition sample_runtime :: runtime where
  "sample_runtime =
     \<lparr>md5_hexdigest = (\<lambda>s. s),
      hash_str = (\<lambda>s. int (length s)),
      json_dumps = (\<lambda>sort_keys v. case v of JDict items \<Rightarrow> ''{'' @ join '','' (map fst items) @ ''}''
                                        | _ \<Rightarrow> [])\<rparr>"

definition alice_engineer :: ExtractedFact where
  "alice_engineer = \<lparr>fact = ''Alice is an engineer'', confidence = 0.9, fact_type = PERSON,
                       entities = [''Alice''], source_context = None\<rparr>"

definition alice_acme :: ExtractedFact where
  "alice_acme = \<lparr>fact = ''Alice works at Acme'', confidence = 0.9, fact_type = ORGANIZATION,
                   entities = [''Alice'', ''Acme''], source_context = None\<rparr>"

definition alice_paris :: ExtractedFact where
  "alice_paris = \<lparr>fact = ''Alice lives in Paris'', confidence = 0.8, fact_type = LOCATION,
                    entities = [''Alice'', ''Paris''], source_context = None\<rparr>"

definition bob_pilot :: ExtractedFact where
  "bob_pilot = \<lparr>fact = ''Bob is a pilot'', confidence = 0.9, fact_type = PERSON,
                  entities = [''Bob''], source_context = None\<rparr>"

definition carol_chef :: ExtractedFact where
  "carol_chef = \<lparr>fact = ''Carol is a chef'', confidence = 0.9, fact_type = PERSON,
                   entities = [''Carol''], source_context = None\<rparr>"

definition noon :: clock where
  "noon = \<lparr>start_time_iso = ''2024-01-01T12:00:00'', elapsed_seconds = 0.25\<rparr>"

text \<open>A system as the constructor leaves it, with the configured threshold 0.7.\<close>

definition fresh_system :: ConnectionDetectionSystem where
  "fresh_system = init_system 0.7 None"

text \<open>A scoring step that raises.\<close>

definition failing_scoring_any ::
  "ExtractedFact list \<Rightarrow> string \<Rightarrow> json \<Rightarrow> exn + DetectedConnection list" where
  "failing_scoring_any new_facts existing_knowledge v = Inl (Exception ''scoring failed'')"

text \<open>A conversion of strings to floats that takes the string \<open>0.5\<close> and no other.\<close>

definition sample_float_of_str :: "string \<Rightarrow> real option" where
  "sample_float_of_str s = (if s = ''0.5'' then Some 0.5 else None)"

text \<open>The system after one detection run on two facts about Alice.\<close>

definition warm_system :: ConnectionDetectionSystem where
  "warm_system =
     snd (detect_connections sample_runtime scoring_step noon fresh_system
            [alice_engineer, alice_acme] ''Nothing known'' None)"

definition sample_event :: NotificationEvent where
  "sample_event =
     \<lparr>event_id = ''conn_1'', event_type = ''high_relevance_connection'',
      message = ''High relevance connection detected (score: 0.80): Share common entities: Alice'',
      severity = ''warning'', data = [(''score'', JFloat 0.8)],
      timestamp = ''2024-01-01T12:00:00'', target_channels = [], sent = False\<rparr>"

text \<open>The line that the file channel writes for \<open>sample_event\<close> under \<open>sample_runtime\<close>.\<close>

definition sample_line :: string where
  "sample_line = ''{timestamp,event_id,event_type,severity,message,data}'' @ [CHR 0x0A]"

text \<open>The file channel as the manager builds it, with the ceiling of 10 MiB.\<close>

definition default_file_channel :: FileNotificationChannel where
  "default_file_channel = FileNotificationChannel_init ''logs/notifications.log'' 10"

definition quiet_io :: file_io where
  "quiet_io = \<lparr>now_stamp = ''20240101_120000'', rename_error = None, write_error = None\<rparr>"

definition rename_denied_io :: file_io where
  "rename_denied_io =
     \<lparr>now_stamp = ''20240101_120000'', rename_error = Some (Exception ''Permission denied''),
      write_error = None\<rparr>"

text \<open>Log files of exactly 10 MiB and of one byte more.\<close>

definition log_at_ceiling :: log_files where
  "log_at_ceiling = \<lparr>log_file = Some (replicate 10485760 (CHR ''x'')), backups = []\<rparr>"

definition log_over_ceiling :: log_files where
  "log_over_ceiling = \<lparr>log_file = Some (replicate 10485761 (CHR ''x'')), backups = []\<rparr>"

text \<open>The webhook channel as the manager builds it: timeout 30, three retries.\<close>

definition default_webhook :: WebhookNotificationChannel where
  "default_webhook = \<lparr>webhook_url = ''https://example.org/hook'', timeout = 30, retries = 3\<rparr>"

text \<open>
  Servers: one that is unreachable for the first two requests and then answers with a
  given status, one that is never reachable, one that answers every request with a given
  status.
\<close>

definition fails_twice_then :: "int \<Rightarrow> nat \<Rightarrow> json \<Rightarrow> exn + http_response" where
  "fails_twice_then code attempt payload =
     (if attempt < 2 then Inl (RequestError ''connection refused'')
      else Inr \<lparr>status_code = code, text_body = ''''\<rparr>)"

definition never_reachable :: "nat \<Rightarrow> json \<Rightarrow> exn + http_response" where
  "never_reachable attempt payload = Inl (RequestError ''connection refused'')"

definition always_status :: "int \<Rightarrow> nat \<Rightarrow> json \<Rightarrow> exn + http_response" where
  "always_status code attempt payload = Inr \<lparr>status_code = code, text_body = ''''\<rparr>"

text \<open>
  Three channels over a world that lists the delivered messages: one delivers, one
  returns \<open>False\<close>, one raises.
\<close>

definition delivering_channel :: "string list channel" where
  "delivering_channel event w = (Inr True, w @ [message event])"

definition refusing_channel :: "string list channel" where
  "refusing_channel event w = (Inr False, w)"

definition raising_channel :: "string list channel" where
  "raising_channel event w = (Inl (Exception ''channel broke''), w)"

definition sample_manager :: "string list NotificationManager" where
  "sample_manager =
     \<lparr>notify_threshold = 0.7,
      channels = [(''webhook'', raising_channel), (''file'', refusing_channel),
                  (''console'', delivering_channel)],
      enabled_channels = [''console'', ''file'', ''webhook''],
      notification_history = [],
      notification_stats = \<lparr>notifications_sent = 0, notifications_failed = 0,
                              channels_active = 0, last_notification = None\<rparr>\<rparr>"

section \<open>Properties of the relation scoring\<close>

subsection \<open>Sets as duplicate-free lists\<close>

lemma set_set_inter: "set (set_inter a b) = set a \<inter> set b"
  by (auto simp: set_inter_def)

lemma set_set_diff: "set (set_diff a b) = set a - set b"
  by (auto simp: set_diff_def)

lemma distinct_set_inter: "distinct a \<Longrightarrow> distinct (set_inter a b)"
  by (simp add: set_inter_def)

lemma distinct_set_diff: "distinct a \<Longrightarrow> distinct (set_diff a b)"
  by (simp add: set_diff_def)

lemma set_common_entities:
  "set (common_entities fact1 fact2) = set (entities fact1) \<inter> set (entities fact2)"
  by (simp add: common_entities_def set_set_inter set_of_def)

lemma distinct_common_entities: "distinct (common_entities fact1 fact2)"
  by (simp add: common_entities_def distinct_set_inter set_of_def)

lemma length_common_entities:
  "length (common_entities fact1 fact2) = card (set (entities fact1) \<inter> set (entities fact2))"
  using distinct_card [OF distinct_common_entities, of fact1 fact2]
  by (simp add: set_common_entities)

lemma set_meaningful_words:
  "set (meaningful_words f k) =
     (set (split (lower (fact f))) \<inter> set (split (lower k))) - set stop_words"
  by (simp add: meaningful_words_def Let_def set_set_diff set_set_inter set_of_def)

lemma distinct_meaningful_words: "distinct (meaningful_words f k)"
  by (simp add: meaningful_words_def Let_def distinct_set_diff distinct_set_inter set_of_def)

lemma length_meaningful_words:
  "length (meaningful_words f k) =
     card ((set (split (lower (fact f))) \<inter> set (split (lower k))) - set stop_words)"
  using distinct_card [OF distinct_meaningful_words, of f k]
  by (simp add: set_meaningful_words)

subsection \<open>The pair loop by index\<close>

lemma index_pairs_Suc:
  "index_pairs (Suc n) =
     map (\<lambda>j. (0, j)) [1..<Suc n] @ map (\<lambda>(i, j). (Suc i, Suc j)) (index_pairs n)"
proof -
  have a: "[0..<Suc n] = 0 # map Suc [0..<n]"
    by (simp add: upt_conv_Cons map_Suc_upt del: upt_Suc)
  have b: "\<And>i. [Suc (Suc i)..<Suc n] = map Suc [Suc i..<n]"
    by (simp add: map_Suc_upt)
  show ?thesis
    unfolding index_pairs_def a
    by (simp add: b map_concat comp_def del: upt_Suc)
qed

lemma pair_connections_index:
  "pair_connections fs =
     concat (map (\<lambda>(i, j). entity_overlap (fs ! i) (fs ! j)) (index_pairs (length fs)))"
proof (induction fs)
  case Nil
  show ?case by (simp add: index_pairs_def)
next
  case (Cons f fs)
  have "concat (map (entity_overlap f) fs) =
        concat (map (\<lambda>(i, j). entity_overlap ((f # fs) ! i) ((f # fs) ! j))
                    (map (\<lambda>j. (0, j)) [1..<Suc (length fs)]))"
  proof -
    have "map (entity_overlap f) fs = map (\<lambda>j. entity_overlap f (fs ! j)) [0..<length fs]"
      by (rule nth_equalityI) simp_all
    also have "\<dots> = map (\<lambda>j. entity_overlap f ((f # fs) ! j)) (map Suc [0..<length fs])"
      by (simp add: comp_def)
    finally show ?thesis
      by (simp add: map_Suc_upt comp_def del: upt_Suc)
  qed
  then show ?case
    using Cons.IH
    by (simp add: index_pairs_Suc comp_def case_prod_unfold del: upt_Suc)
qed

subsection \<open>Connections by type\<close>

lemma factual_entity_overlap:
  "filter (\<lambda>c. connection_type (score c) = ''factual'') (entity_overlap f g) = entity_overlap f g"
  by (simp add: entity_overlap_def Let_def)

lemma factual_knowledge_match:
  "filter (\<lambda>c. connection_type (score c) = ''factual'') (knowledge_match f k) = []"
  by (simp add: knowledge_match_def Let_def)

lemma factual_temporal_connection:
  "filter (\<lambda>c. connection_type (score c) = ''factual'') (temporal_connection fs) = []"
  by (simp add: temporal_connection_def split: list.splits)

lemma semantic_entity_overlap:
  "filter (\<lambda>c. connection_type (score c) = ''semantic'') (entity_overlap f g) = []"
  by (simp add: entity_overlap_def Let_def)

lemma semantic_knowledge_match:
  "filter (\<lambda>c. connection_type (score c) = ''semantic'') (knowledge_match f k) = knowledge_match f k"
  by (simp add: knowledge_match_def Let_def)

lemma semantic_temporal_connection:
  "filter (\<lambda>c. connection_type (score c) = ''semantic'') (temporal_connection fs) = []"
  by (simp add: temporal_connection_def split: list.splits)

lemma filter_concat_map_id:
  "(\<And>x. filter P (g x) = g x) \<Longrightarrow> filter P (concat (map g xs)) = concat (map g xs)"
  by (induction xs) simp_all

lemma filter_concat_map_Nil:
  "(\<And>x. filter P (g x) = []) \<Longrightarrow> filter P (concat (map g xs)) = []"
  by (induction xs) simp_all

lemma factual_pair_connections:
  "filter (\<lambda>c. connection_type (score c) = ''factual'') (pair_connections fs) = pair_connections fs"
  by (induction fs) (simp_all add: filter_concat_map_id factual_entity_overlap)

lemma semantic_pair_connections:
  "filter (\<lambda>c. connection_type (score c) = ''semantic'') (pair_connections fs) = []"
  by (induction fs) (simp_all add: filter_concat_map_Nil semantic_entity_overlap)

lemma factual_simulate:
  "filter (\<lambda>c. connection_type (score c) = ''factual'')
     (simulate_connection_detection new_facts existing_knowledge thr)
   = pair_connections new_facts"
  by (simp add: simulate_connection_detection_def factual_pair_connections
      filter_concat_map_Nil factual_knowledge_match factual_temporal_connection)

lemma semantic_simulate:
  "filter (\<lambda>c. connection_type (score c) = ''semantic'')
     (simulate_connection_detection new_facts existing_knowledge thr)
   = concat (map (\<lambda>f. knowledge_match f existing_knowledge) new_facts)"
  by (simp add: simulate_connection_detection_def semantic_pair_connections
      filter_concat_map_id semantic_knowledge_match semantic_temporal_connection)

subsection \<open>Entity overlap and lexical similarity\<close>

lemma entity_overlap_cases:
  "(let k = card (set (entities fact1) \<inter> set (entities fact2)) in
    if k = 0 then entity_overlap fact1 fact2 = []
    else \<exists>c. entity_overlap fact1 fact2 = [c]
           \<and> source_fact c = fact fact1 \<and> target_fact c = fact fact2
           \<and> score_value (score c) = min 1.0 (0.7 + 0.1 * real k)
           \<and> connection_type (score c) = ''factual''
           \<and> distinct (common_entities fact1 fact2)
           \<and> set (common_entities fact1 fact2) = set (entities fact1) \<inter> set (entities fact2)
           \<and> evidence c = [''Both facts mention: '' @ join '', '' (common_entities fact1 fact2)])"
proof (cases "common_entities fact1 fact2 = []")
  case True
  then have "card (set (entities fact1) \<inter> set (entities fact2)) = 0"
    using length_common_entities [of fact1 fact2] by simp
  with True show ?thesis
    by (simp add: entity_overlap_def)
next
  case False
  then have "set (common_entities fact1 fact2) \<noteq> {}"
    by simp
  then have "card (set (entities fact1) \<inter> set (entities fact2)) \<noteq> 0"
    by (simp add: set_common_entities)
  moreover have "\<exists>c. entity_overlap fact1 fact2 = [c]
           \<and> source_fact c = fact fact1 \<and> target_fact c = fact fact2
           \<and> score_value (score c) =
               min 1.0 (0.7 + 0.1 * real (card (set (entities fact1) \<inter> set (entities fact2))))
           \<and> connection_type (score c) = ''factual''
           \<and> distinct (common_entities fact1 fact2)
           \<and> set (common_entities fact1 fact2) = set (entities fact1) \<inter> set (entities fact2)
           \<and> evidence c = [''Both facts mention: '' @ join '', '' (common_entities fact1 fact2)]"
    using False distinct_common_entities [of fact1 fact2] set_common_entities [of fact1 fact2]
    by (simp add: entity_overlap_def Let_def length_common_entities min.commute mult.commute)
  ultimately show ?thesis
    by (simp add: Let_def)
qed

lemma knowledge_match_cases:
  "(let m = card ((set (split (lower (fact f))) \<inter> set (split (lower existing_knowledge)))
                   - set stop_words) in
    if m < 2 then knowledge_match f existing_knowledge = []
    else \<exists>c. knowledge_match f existing_knowledge = [c]
           \<and> source_fact c = fact f
           \<and> score_value (score c) = min 0.9 (0.5 + 0.05 * real m)
           \<and> connection_type (score c) = ''semantic'')"
  by (simp add: knowledge_match_def Let_def length_meaningful_words min.commute mult.commute
      not_less)


text \<open>
  Claim C8 (entity-overlap strategy). The connections of type \<open>factual\<close> in the scorer's
  output are, in order, the results of the entity-overlap step on the unordered pairs
  \<open>i < j\<close> of the input facts. For a pair of facts sharing \<open>k\<close> entities, that step
  emits nothing when \<open>k = 0\<close>, and otherwise exactly one connection, from the first fact
  to the second, with score \<open>min(1.0, 0.7 + 0.1 k)\<close>, type \<open>factual\<close>, and as its only
  evidence the line that lists the shared entities (each once).
\<close>

theorem entity_overlap_connections:
  "filter (\<lambda>c. connection_type (score c) = ''factual'')
      (simulate_connection_detection new_facts existing_knowledge thr)
    = concat (map (\<lambda>(i, j). entity_overlap (new_facts ! i) (new_facts ! j))
                  (index_pairs (length new_facts)))
   \<and> (\<forall>fact1 fact2.
        let k = card (set (entities fact1) \<inter> set (entities fact2)) in
        if k = 0 then entity_overlap fact1 fact2 = []
        else \<exists>c. entity_overlap fact1 fact2 = [c]
               \<and> source_fact c = fact fact1 \<and> target_fact c = fact fact2
               \<and> score_value (score c) = min 1.0 (0.7 + 0.1 * real k)
               \<and> connection_type (score c) = ''factual''
               \<and> distinct (common_entities fact1 fact2)
           \<and> set (common_entities fact1 fact2) = set (entities fact1) \<inter> set (entities fact2)
               \<and> evidence c = [''Both facts mention: '' @ join '', '' (common_entities fact1 fact2)])"
  using entity_overlap_cases
  by (simp only: factual_simulate pair_connections_index [symmetric]) blast

text \<open>The scenario of the specification: two facts about Alice share one entity.\<close>

theorem entity_overlap_connections_witness:
  "\<exists>c. filter (\<lambda>c. connection_type (score c) = ''factual'')
         (simulate_connection_detection
            [\<lparr>fact = ''Alice is an engineer'', confidence = 0.9, fact_type = PERSON,
              entities = [''Alice''], source_context = None\<rparr>,
             \<lparr>fact = ''Alice works at Acme'', confidence = 0.9, fact_type = ORGANIZATION,
              entities = [''Alice'', ''Acme''], source_context = None\<rparr>]
            ''Nothing known'' 0.7) = [c]
       \<and> score_value (score c) = 0.8
       \<and> connection_type (score c) = ''factual''
       \<and> evidence c = [''Both facts mention: Alice'']"
  using entity_overlap_connections
    [of "[\<lparr>fact = ''Alice is an engineer'', confidence = 0.9, fact_type = PERSON,
              entities = [''Alice''], source_context = None\<rparr>,
             \<lparr>fact = ''Alice works at Acme'', confidence = 0.9, fact_type = ORGANIZATION,
              entities = [''Alice'', ''Acme''], source_context = None\<rparr>]"
        "''Nothing known''" "0.7"]
  by (simp add: index_pairs_def entity_overlap_def common_entities_def set_of_def
      set_inter_def Let_def)

text \<open>
  Claim C9 (lexical-similarity strategy). The connections of type \<open>semantic\<close> in the
  scorer's output are, in order, the results of the keyword step on each input fact. For
  a fact whose lowercase words share \<open>m\<close> words with the lowercase words of the corpus,
  stop words not counted, that step emits nothing when \<open>m < 2\<close>, and otherwise exactly
  one connection with score \<open>min(0.9, 0.5 + 0.05 m)\<close> and type \<open>semantic\<close>.
\<close>

theorem lexical_similarity_connections:
  "filter (\<lambda>c. connection_type (score c) = ''semantic'')
      (simulate_connection_detection new_facts existing_knowledge thr)
    = concat (map (\<lambda>f. knowledge_match f existing_knowledge) new_facts)
   \<and> (\<forall>f.
        let m = card ((set (split (lower (fact f))) \<inter> set (split (lower existing_knowledge)))
                      - set stop_words) in
        if m < 2 then knowledge_match f existing_knowledge = []
        else \<exists>c. knowledge_match f existing_knowledge = [c]
               \<and> source_fact c = fact f
               \<and> score_value (score c) = min 0.9 (0.5 + 0.05 * real m)
               \<and> connection_type (score c) = ''semantic'')"
  using knowledge_match_cases
  by (simp only: semantic_simulate) blast

text \<open>
  Two facts against one corpus: the first shares the words alice and engineer (the stop
  words is, an and the do not count), the second shares only stop words.
\<close>

theorem lexical_similarity_connections_witness:
  "filter (\<lambda>c. connection_type (score c) = ''semantic'')
      (simulate_connection_detection
         [\<lparr>fact = ''Alice is an engineer'', confidence = 0.9, fact_type = PERSON,
           entities = [''Alice''], source_context = None\<rparr>,
          \<lparr>fact = ''Bob is a pilot'', confidence = 0.9, fact_type = PERSON,
           entities = [''Bob''], source_context = None\<rparr>]
         ''The engineer  ALICE is at Acme'' 0.7)
   = [\<lparr>source_fact = ''Alice is an engineer'',
       target_fact = ''Existing knowledge in the knowledge base'',
       relationship = ''Semantic similarity through shared concepts: alice, engineer'',
       score = \<lparr>score_value = 0.6, score_confidence = 0.7,
                reasoning = ''Shares 2 meaningful concepts with existing knowledge'',
                connection_type = ''semantic''\<rparr>,
       evidence = [''Shared concepts: alice, engineer''],
       metadata = SemanticSimilarity [''alice'', ''engineer'']\<rparr>]"
  using lexical_similarity_connections
    [of "[\<lparr>fact = ''Alice is an engineer'', confidence = 0.9, fact_type = PERSON,
           entities = [''Alice''], source_context = None\<rparr>,
          \<lparr>fact = ''Bob is a pilot'', confidence = 0.9, fact_type = PERSON,
           entities = [''Bob''], source_context = None\<rparr>]"
        "''The engineer  ALICE is at Acme''" "0.7"]
  by (simp add: knowledge_match_def meaningful_words_def split_def lower_def lower_char_def
      is_space_def set_diff_def stop_words_def set_inter_def set_of_def Let_def
      str_nat.simps)

section \<open>Properties of the connection detector\<close>

subsection \<open>The three ways a call ends\<close>

lemma generate_cache_key_length:
  "length facts2 = length facts1 \<Longrightarrow>
   generate_cache_key rt facts2 k opts = generate_cache_key rt facts1 k opts"
  by (simp add: generate_cache_key_def)

lemma detect_connections_hit:
  "connection_cache self (generate_cache_key rt new_facts k (or_empty options)) = Some cached \<Longrightarrow>
   detect_connections rt scoring clk self new_facts k options =
     (cached, self\<lparr>stats := (stats self)
                \<lparr>total_detections := total_detections (stats self) + 1,
                 cached_results := cached_results (stats self) + 1\<rparr>\<rparr>)"
  by (simp add: detect_connections_def Let_def)

lemma detect_connections_failed:
  "connection_cache self (generate_cache_key rt new_facts k (or_empty options)) = None \<Longrightarrow>
   scoring new_facts k (get_threshold (or_empty options) (threshold self)) = Inl e \<Longrightarrow>
   detect_connections rt scoring clk self new_facts k options =
     (\<lparr>connections = [], total_connections = 0, high_relevance_connections = [],
       threshold_used = get_threshold (or_empty options) (threshold self),
       processing_time = elapsed_seconds clk, status = FAILED\<rparr>,
      self\<lparr>stats := (stats self)\<lparr>total_detections := total_detections (stats self) + 1\<rparr>\<rparr>)"
  by (simp add: detect_connections_def Let_def)

lemma detect_connections_completed:
  "connection_cache self (generate_cache_key rt new_facts k (or_empty options)) = None \<Longrightarrow>
   scoring new_facts k (get_threshold (or_empty options) (threshold self)) = Inr conns \<Longrightarrow>
   fst (detect_connections rt scoring clk self new_facts k options) =
     \<lparr>connections = conns, total_connections = length conns,
      high_relevance_connections =
        filter (\<lambda>conn. score_value (score conn) \<ge> get_threshold (or_empty options) (threshold self)) conns,
      threshold_used = get_threshold (or_empty options) (threshold self),
      processing_time = elapsed_seconds clk, status = COMPLETED\<rparr>
   \<and> connection_cache (snd (detect_connections rt scoring clk self new_facts k options))
       (generate_cache_key rt new_facts k (or_empty options)) =
       Some (fst (detect_connections rt scoring clk self new_facts k options))"
  by (simp add: detect_connections_def Let_def)

lemma detect_connections_cached_after:
  assumes "detect_connections rt scoring clk self new_facts k options = (result, self')"
      and "status result = COMPLETED"
  shows "connection_cache self' (generate_cache_key rt new_facts k (or_empty options)) = Some result"
proof (cases "connection_cache self (generate_cache_key rt new_facts k (or_empty options))")
  case (Some cached)
  from detect_connections_hit [OF Some, of scoring clk] assms(1)
  have "result = cached" and "connection_cache self' = connection_cache self"
    by auto
  with Some show ?thesis by simp
next
  case None
  show ?thesis
  proof (cases "scoring new_facts k (get_threshold (or_empty options) (threshold self))")
    case (Inl e)
    from None Inl have "status (fst (detect_connections rt scoring clk self new_facts k options)) = FAILED"
      by (simp add: detect_connections_failed)
    with assms show ?thesis
      by simp
  next
    case (Inr conns)
    from None Inr
    have "connection_cache (snd (detect_connections rt scoring clk self new_facts k options))
       (generate_cache_key rt new_facts k (or_empty options)) =
       Some (fst (detect_connections rt scoring clk self new_facts k options))"
      by (simp add: detect_connections_completed)
    with assms(1) show ?thesis
      by simp
  qed
qed


subsection \<open>The number of connections the scoring step can emit\<close>








subsection \<open>Concrete runs\<close>

lemmas eval_detect =
  detect_connections_def Let_def scoring_step_def or_empty_def get_threshold_def
  empty_options_def generate_cache_key_def options_json_def sample_runtime_def
  fresh_system_def init_system_def noon_def str_int_def str_nat.simps

lemmas eval_scoring =
  simulate_connection_detection_def entity_overlap_def common_entities_def set_of_def
  set_inter_def knowledge_match_def meaningful_words_def split_def lower_def lower_char_def
  is_space_def set_diff_def stop_words_def temporal_connection_def repr_set_def
  alice_engineer_def alice_acme_def alice_paris_def bob_pilot_def carol_chef_def

lemma first_run:
  "detect_connections sample_runtime scoring_step noon fresh_system
      [alice_engineer, alice_acme] ''Nothing known'' None
   = (\<lparr>connections = entity_overlap alice_engineer alice_acme,
        total_connections = 1,
        high_relevance_connections = entity_overlap alice_engineer alice_acme,
        threshold_used = 0.7, processing_time = 0.25, status = COMPLETED\<rparr>,
      \<lparr>threshold = 0.7,
       connection_cache =
         [''2-13-{}'' \<mapsto>
            \<lparr>connections = entity_overlap alice_engineer alice_acme,
             total_connections = 1,
             high_relevance_connections = entity_overlap alice_engineer alice_acme,
             threshold_used = 0.7, processing_time = 0.25, status = COMPLETED\<rparr>],
       stats = \<lparr>total_detections = 1, connections_found = 1,
                stat_high_relevance_connections = 1, cached_results = 0,
                average_processing_time = 0.25,
                last_detection = Some ''2024-01-01T12:00:00''\<rparr>\<rparr>)"
proof -
  have a: "simulate_connection_detection [alice_engineer, alice_acme] ''Nothing known'' thr
      = entity_overlap alice_engineer alice_acme" for thr
    by (simp add: simulate_connection_detection_def knowledge_match_def meaningful_words_def
        split_def lower_def lower_char_def is_space_def set_diff_def stop_words_def
        set_inter_def set_of_def temporal_connection_def alice_engineer_def alice_acme_def)
  have b: "entity_overlap alice_engineer alice_acme = [c] \<Longrightarrow> score_value (score c) = 0.8" for c
    by (auto simp add: entity_overlap_def common_entities_def set_of_def set_inter_def
        alice_engineer_def alice_acme_def Let_def)
  obtain c where c: "entity_overlap alice_engineer alice_acme = [c]"
    by (simp add: entity_overlap_def common_entities_def set_of_def set_inter_def
        alice_engineer_def alice_acme_def Let_def)
  show ?thesis
    using b [OF c]
    by (simp add: eval_detect a c)
qed

lemma warm_system_eq:
  "warm_system =
      \<lparr>threshold = 0.7,
       connection_cache =
         [''2-13-{}'' \<mapsto>
            \<lparr>connections = entity_overlap alice_engineer alice_acme,
             total_connections = 1,
             high_relevance_connections = entity_overlap alice_engineer alice_acme,
             threshold_used = 0.7, processing_time = 0.25, status = COMPLETED\<rparr>],
       stats = \<lparr>total_detections = 1, connections_found = 1,
                stat_high_relevance_connections = 1, cached_results = 0,
                average_processing_time = 0.25,
                last_detection = Some ''2024-01-01T12:00:00''\<rparr>\<rparr>"
  by (simp add: warm_system_def first_run)

lemma sample_key_two_facts:
  "generate_cache_key sample_runtime [f, g] ''Nothing known'' (or_empty None) = ''2-13-{}''"
  by (simp add: generate_cache_key_def sample_runtime_def or_empty_def empty_options_def
      options_json_def str_int_def str_nat.simps)

subsection \<open>Cache key, truncation, cache hit and failure\<close>

text \<open>
  Claim C1 (cache fingerprint against the content of the facts). The claim asks that two
  calls whose fact lists have the same length and differ in content get different cache
  keys, so that the second never returns the first call's result. The key of the code
  holds the number of facts only. So whenever a call on \<open>facts1\<close> ends completed, every
  later call with the same corpus and options on a list \<open>facts2\<close> of the same length
  returns that first result, whatever \<open>facts2\<close> holds and whatever the scoring step would
  now compute.
\<close>

theorem stale_result_for_other_facts:
  assumes "length facts2 = length facts1"
      and "detect_connections rt scoring clk self facts1 k options = (result1, self1)"
      and "status result1 = COMPLETED"
  shows "fst (detect_connections rt scoring2 clk2 self1 facts2 k options) = result1"
proof -
  have "connection_cache self1 (generate_cache_key rt facts2 k (or_empty options)) = Some result1"
    using detect_connections_cached_after [OF assms(2,3)]
      generate_cache_key_length [OF assms(1), of rt k "or_empty options"]
    by simp
  then show ?thesis
    by (simp add: detect_connections_hit)
qed

text \<open>
  After a run on two facts about Alice, which share an entity, a run on two facts about
  Bob and Carol, which share none, returns the connection between the facts about Alice.
\<close>

theorem stale_result_for_other_facts_witness:
  "length [bob_pilot, carol_chef] = length [alice_engineer, alice_acme]
   \<and> status (fst (detect_connections sample_runtime scoring_step noon fresh_system
                    [alice_engineer, alice_acme] ''Nothing known'' None)) = COMPLETED
   \<and> simulate_connection_detection [bob_pilot, carol_chef] ''Nothing known'' 0.7 = []
   \<and> connections (fst (detect_connections sample_runtime scoring_step noon warm_system
                          [bob_pilot, carol_chef] ''Nothing known'' None))
       = entity_overlap alice_engineer alice_acme
   \<and> length (entity_overlap alice_engineer alice_acme) = 1"
proof -
  have len: "length [bob_pilot, carol_chef] = length [alice_engineer, alice_acme]"
    by simp
  have run: "detect_connections sample_runtime scoring_step noon fresh_system
               [alice_engineer, alice_acme] ''Nothing known'' None
             = (fst (detect_connections sample_runtime scoring_step noon fresh_system
                       [alice_engineer, alice_acme] ''Nothing known'' None), warm_system)"
    by (simp add: warm_system_def)
  have completed: "status (fst (detect_connections sample_runtime scoring_step noon fresh_system
                    [alice_engineer, alice_acme] ''Nothing known'' None)) = COMPLETED"
    by (simp add: first_run)
  have none: "simulate_connection_detection [bob_pilot, carol_chef] ''Nothing known'' 0.7 = []"
    by (simp add: eval_scoring)
  have one: "length (entity_overlap alice_engineer alice_acme) = 1"
    by (simp add: eval_scoring Let_def)
  show ?thesis
    using len completed none one
      stale_result_for_other_facts [OF len run completed, of scoring_step noon]
    by (simp add: first_run)
qed




text \<open>
  Claim C3 (frame of a cache hit), as amended. On a cache hit the call returns the cached
  result unchanged and increments two counters by one: \<open>cached_results\<close> and
  \<open>total_detections\<close>, which counts every call. The other statistics
  (\<open>connections_found\<close>, \<open>high_relevance_connections\<close>, \<open>average_processing_time\<close>,
  \<open>last_detection\<close>), the cache and the threshold are left as they were.
\<close>

theorem cache_hit_updates_two_counters:
  assumes "connection_cache self (generate_cache_key rt new_facts k (or_empty options))
           = Some cached"
  shows "detect_connections rt scoring clk self new_facts k options =
     (cached, self\<lparr>stats := (stats self)
                \<lparr>total_detections := total_detections (stats self) + 1,
                 cached_results := cached_results (stats self) + 1\<rparr>\<rparr>)"
  using assms by (rule detect_connections_hit)

text \<open>Repeating the run on the two facts about Alice hits the cache.\<close>

theorem cache_hit_updates_two_counters_witness:
  "connection_cache warm_system
      (generate_cache_key sample_runtime [alice_engineer, alice_acme] ''Nothing known''
         (or_empty None))
     = Some (fst (detect_connections sample_runtime scoring_step noon fresh_system
                    [alice_engineer, alice_acme] ''Nothing known'' None))
   \<and> detect_connections sample_runtime scoring_step noon warm_system
        [alice_engineer, alice_acme] ''Nothing known'' None
     = (fst (detect_connections sample_runtime scoring_step noon fresh_system
               [alice_engineer, alice_acme] ''Nothing known'' None),
        warm_system\<lparr>stats := (stats warm_system)
                      \<lparr>total_detections := 2, cached_results := 1\<rparr>\<rparr>)"
proof -
  have hit: "connection_cache warm_system
      (generate_cache_key sample_runtime [alice_engineer, alice_acme] ''Nothing known''
         (or_empty None))
     = Some (fst (detect_connections sample_runtime scoring_step noon fresh_system
                    [alice_engineer, alice_acme] ''Nothing known'' None))"
    by (simp add: sample_key_two_facts warm_system_eq first_run)
  show ?thesis
    using hit cache_hit_updates_two_counters [OF hit, of scoring_step noon]
    by (simp add: warm_system_eq)
qed

text \<open>
  Claim C3 as stated fails: the repeated run is a cache hit, and \<open>total_detections\<close>
  goes from 1 to 2.
\<close>

theorem cache_hit_total_detections_counterexample:
  "connection_cache warm_system
      (generate_cache_key sample_runtime [alice_engineer, alice_acme] ''Nothing known''
         (or_empty None))
     = Some (fst (detect_connections sample_runtime scoring_step noon warm_system
                    [alice_engineer, alice_acme] ''Nothing known'' None))
   \<and> total_detections (stats warm_system) = 1
   \<and> total_detections (stats (snd (detect_connections sample_runtime scoring_step noon
         warm_system [alice_engineer, alice_acme] ''Nothing known'' None))) = 2"
proof -
  have hit: "connection_cache warm_system
      (generate_cache_key sample_runtime [alice_engineer, alice_acme] ''Nothing known''
         (or_empty None))
     = Some (fst (detect_connections sample_runtime scoring_step noon fresh_system
                    [alice_engineer, alice_acme] ''Nothing known'' None))"
    by (simp add: sample_key_two_facts warm_system_eq first_run)
  have step: "detect_connections sample_runtime scoring_step noon warm_system
                [alice_engineer, alice_acme] ''Nothing known'' None
     = (fst (detect_connections sample_runtime scoring_step noon fresh_system
               [alice_engineer, alice_acme] ''Nothing known'' None),
        warm_system\<lparr>stats := (stats warm_system)
                      \<lparr>total_detections := total_detections (stats warm_system) + 1,
                       cached_results := cached_results (stats warm_system) + 1\<rparr>\<rparr>)"
    by (rule detect_connections_hit [OF hit])
  have before: "total_detections (stats warm_system) = 1"
    by (simp add: warm_system_eq)
  show ?thesis
    unfolding step using hit before by simp
qed

subsection \<open>The options as they arrive\<close>

lemma simulate_ignores_threshold:
  "simulate_connection_detection new_facts k thr = simulate_connection_detection new_facts k thr'"
  by (simp add: simulate_connection_detection_def)

lemma options_json_items: "options_json opts = JDict (options_items opts)"
  by (simp add: options_json_def options_items_def)

lemma get_threshold_any_items:
  "get_threshold_any (options_items opts) dflt = JFloat (get_threshold opts dflt)"
  by (simp add: get_threshold_any_def get_threshold_def options_items_def
      split: option.splits)

lemma generate_cache_key_any_items:
  "generate_cache_key_any rt new_facts k (options_items opts)
   = generate_cache_key rt new_facts k opts"
  by (simp add: generate_cache_key_any_def generate_cache_key_def options_json_items)

lemma dict_or_empty_items:
  "dict_or_empty (map_option options_items options) = options_items (or_empty options)"
  by (cases options)
     (simp_all add: dict_or_empty_def or_empty_def empty_options_def options_items_def)

lemma filter_by_threshold_float:
  "filter_by_threshold (JFloat t) conns
   = Inr (filter (\<lambda>conn. score_value (score conn) \<ge> t) conns)"
  by (simp add: filter_by_threshold_def as_number_def)

lemma validate_float_float: "validate_float float_of_str (JFloat t) = Some t"
  by (simp add: validate_float_def as_number_def)

lemma detect_connections_any_typed:
  assumes "\<And>t. scoring_any new_facts k (JFloat t) = scoring new_facts k t"
  shows "detect_connections_any rt float_of_str scoring_any clk self new_facts k
            (map_option options_items options)
         = (Inr (fst (detect_connections rt scoring clk self new_facts k options)),
            snd (detect_connections rt scoring clk self new_facts k options))"
  by (simp add: detect_connections_any_def detection_attempt_def detect_connections_def
      Let_def dict_or_empty_items get_threshold_any_items generate_cache_key_any_items
      filter_by_threshold_float validate_float_float assms
      split: option.splits sum.splits)

lemma detection_attempt_raises:
  assumes "connection_cache self1 (generate_cache_key_any rt new_facts k options1) = None"
      and "validate_float float_of_str (get_threshold_any options1 (threshold self1)) = None"
  shows "\<exists>e. detection_attempt rt float_of_str scoring clk self1 new_facts k options1 = Inl e"
  using assms
  by (simp add: detection_attempt_def Let_def split: sum.splits)

lemma detect_connections_any_failed:
  assumes "connection_cache self (generate_cache_key_any rt new_facts k (dict_or_empty options))
           = None"
      and "scoring new_facts k (get_threshold_any (dict_or_empty options) (threshold self))
           = Inl e"
      and "validate_float float_of_str
             (get_threshold_any (dict_or_empty options) (threshold self)) = Some t"
  shows "detect_connections_any rt float_of_str scoring clk self new_facts k options =
     (Inr \<lparr>connections = [], total_connections = 0, high_relevance_connections = [],
           threshold_used = t, processing_time = elapsed_seconds clk, status = FAILED\<rparr>,
      self\<lparr>stats := (stats self)\<lparr>total_detections := total_detections (stats self) + 1\<rparr>\<rparr>)"
  using assms
  by (simp add: detect_connections_any_def detection_attempt_def Let_def)

text \<open>
  Claim C5 (an exception inside the detection run). The claim asks that an exception
  raised while the relations are computed gives a result with status failed and empty
  lists, and that no exception reaches the caller. The handler of the code builds that
  result with \<open>threshold_used=threshold\<close>, the unchecked value from the options. So
  whenever the threshold in effect is a value that the validation of the output refuses
  (\<open>None\<close>, a string that is no number, a list), every call that misses the cache raises
  inside the \<open>try\<close> block and then again in the handler: the call ends with
  \<open>ValidationError\<close> raised to the caller, whatever the scoring step does. Only the
  counter \<open>total_detections\<close> has changed. (With a threshold that validates, a raising
  scoring step gives the failed result of the claim: lemma
  \<open>detect_connections_any_failed\<close>.)
\<close>

theorem failure_handler_raises:
  assumes "connection_cache self (generate_cache_key_any rt new_facts k (dict_or_empty options))
           = None"
      and "validate_float float_of_str
             (get_threshold_any (dict_or_empty options) (threshold self)) = None"
  shows "detect_connections_any rt float_of_str scoring clk self new_facts k options =
     (Inl (Exception ''ValidationError''),
      self\<lparr>stats := (stats self)\<lparr>total_detections := total_detections (stats self) + 1\<rparr>\<rparr>)"
proof -
  obtain e where "detection_attempt rt float_of_str scoring clk
      (self\<lparr>stats := (stats self)\<lparr>total_detections := total_detections (stats self) + 1\<rparr>\<rparr>)
      new_facts k (dict_or_empty options) = Inl e"
    using detection_attempt_raises
      [of "self\<lparr>stats := (stats self)\<lparr>total_detections := total_detections (stats self) + 1\<rparr>\<rparr>"
          rt new_facts k "dict_or_empty options" float_of_str scoring clk] assms
    by auto
  then show ?thesis
    using assms(2) by (simp add: detect_connections_any_def Let_def)
qed

text \<open>
  The options \<open>{"threshold": None}\<close> on a fresh system with the two facts about Alice:
  the repository's scoring step finds a connection, the comparison with \<open>None\<close> raises
  \<open>TypeError\<close> inside the \<open>try\<close> block, and the call raises \<open>ValidationError\<close>. With a
  scoring step that raises, the call ends the same way.
\<close>

theorem failure_handler_raises_witness:
  "connection_cache fresh_system
      (generate_cache_key_any sample_runtime [alice_engineer, alice_acme] ''Nothing known''
         (dict_or_empty (Some [(''threshold'', JNull)]))) = None
   \<and> validate_float sample_float_of_str
        (get_threshold_any (dict_or_empty (Some [(''threshold'', JNull)]))
           (threshold fresh_system)) = None
   \<and> detection_attempt sample_runtime sample_float_of_str scoring_step_any noon
        (fresh_system\<lparr>stats := (stats fresh_system)\<lparr>total_detections := 1\<rparr>\<rparr>)
        [alice_engineer, alice_acme] ''Nothing known'' [(''threshold'', JNull)]
       = Inl (Exception ''TypeError'')
   \<and> detect_connections_any sample_runtime sample_float_of_str scoring_step_any noon
        fresh_system [alice_engineer, alice_acme] ''Nothing known''
        (Some [(''threshold'', JNull)])
       = (Inl (Exception ''ValidationError''),
          fresh_system\<lparr>stats := (stats fresh_system)\<lparr>total_detections := 1\<rparr>\<rparr>)
   \<and> detect_connections_any sample_runtime sample_float_of_str failing_scoring_any noon
        fresh_system [alice_engineer, alice_acme] ''Nothing known''
        (Some [(''threshold'', JNull)])
       = (Inl (Exception ''ValidationError''),
          fresh_system\<lparr>stats := (stats fresh_system)\<lparr>total_detections := 1\<rparr>\<rparr>)"
proof -
  have miss: "connection_cache fresh_system
      (generate_cache_key_any sample_runtime [alice_engineer, alice_acme] ''Nothing known''
         (dict_or_empty (Some [(''threshold'', JNull)]))) = None"
    by (simp add: fresh_system_def init_system_def)
  have bad: "validate_float sample_float_of_str
        (get_threshold_any (dict_or_empty (Some [(''threshold'', JNull)]))
           (threshold fresh_system)) = None"
    by (simp add: validate_float_def as_number_def get_threshold_any_def dict_or_empty_def)
  have one: "simulate_connection_detection [alice_engineer, alice_acme] ''Nothing known'' thr
             \<noteq> []" for thr
    by (simp add: eval_scoring Let_def)
  have inside: "detection_attempt sample_runtime sample_float_of_str scoring_step_any noon
        (fresh_system\<lparr>stats := (stats fresh_system)\<lparr>total_detections := 1\<rparr>\<rparr>)
        [alice_engineer, alice_acme] ''Nothing known'' [(''threshold'', JNull)]
       = Inl (Exception ''TypeError'')"
    using one
    by (simp add: detection_attempt_def Let_def fresh_system_def init_system_def
        scoring_step_any_def filter_by_threshold_def as_number_def get_threshold_any_def)
  have zero: "total_detections (stats fresh_system) = 0"
    by (simp add: fresh_system_def init_system_def)
  show ?thesis
    using miss bad inside
      failure_handler_raises [OF miss bad, of scoring_step_any noon]
      failure_handler_raises [OF miss bad, of failing_scoring_any noon]
    by (simp add: zero)
qed

section \<open>Properties of the notification channels\<close>

subsection \<open>The file channel\<close>

lemma file_send_rotates:
  "log_file fs = Some content \<Longrightarrow> int (length content) > max_size_bytes self \<Longrightarrow>
   rename_error io = None \<Longrightarrow> write_error io = None \<Longrightarrow>
   file_send_notification rt self io event fs =
     (True, \<lparr>log_file = Some (json_dumps rt False (notification_data event) @ [CHR 0x0A]),
             backups = backups fs @ [(with_suffix (file_path self) (''.'' @ now_stamp io @ ''.log''),
                                      content)]\<rparr>)"
  by (simp add: file_send_notification_def rotate_if_needed_def Let_def)

lemma file_send_appends_absent:
  "log_file fs = None \<Longrightarrow> write_error io = None \<Longrightarrow>
   file_send_notification rt self io event fs =
     (True, fs\<lparr>log_file := Some (json_dumps rt False (notification_data event) @ [CHR 0x0A])\<rparr>)"
  by (simp add: file_send_notification_def rotate_if_needed_def Let_def)

lemma file_send_appends_small:
  "log_file fs = Some content \<Longrightarrow> int (length content) \<le> max_size_bytes self \<Longrightarrow>
   write_error io = None \<Longrightarrow>
   file_send_notification rt self io event fs =
     (True, fs\<lparr>log_file :=
               Some (content @ json_dumps rt False (notification_data event) @ [CHR 0x0A])\<rparr>)"
  by (simp add: file_send_notification_def rotate_if_needed_def Let_def)

lemma file_send_rename_fails:
  "rename_error io = Some e \<Longrightarrow> write_error io = None \<Longrightarrow>
   file_send_notification rt self io event fs =
     (True, fs\<lparr>log_file :=
               Some ((case log_file fs of None \<Rightarrow> [] | Some content \<Rightarrow> content)
                     @ json_dumps rt False (notification_data event) @ [CHR 0x0A])\<rparr>)"
  by (simp add: file_send_notification_def rotate_if_needed_def Let_def split: option.splits)

lemma sample_line_eq:
  "json_dumps sample_runtime False (notification_data sample_event) @ [CHR 0x0A] = sample_line"
  by (simp add: sample_runtime_def notification_data_def sample_line_def)

lemma backup_path_eq:
  "with_suffix (file_path default_file_channel) (''.'' @ now_stamp quiet_io @ ''.log'')
   = ''logs/notifications.20240101_120000.log''"
  by (simp add: with_suffix_def path_suffix_def path_name_def default_file_channel_def
      FileNotificationChannel_init_def quiet_io_def Let_def)

subsection \<open>Rotation\<close>

text \<open>
  Claim C4 (rotation of the file channel), as amended. Before each write the channel
  compares the size of the existing log file with the ceiling. If the file exists and
  is larger than the ceiling, it is renamed to the timestamped backup and the write
  starts a new file that holds only the new line. If the file is not larger than the
  ceiling, or does not exist, the line is appended without any rotation, also when this
  write takes the file over the ceiling: the rotation then takes place before the next
  send. If the rename fails, the file stays in place and the line is still appended.
\<close>

theorem file_channel_rotation:
  "(log_file fs = Some content \<and> int (length content) > max_size_bytes self
      \<and> rename_error io = None \<and> write_error io = None \<longrightarrow>
    file_send_notification rt self io event fs =
      (True, \<lparr>log_file = Some (json_dumps rt False (notification_data event) @ [CHR 0x0A]),
              backups = backups fs
                @ [(with_suffix (file_path self) (''.'' @ now_stamp io @ ''.log''), content)]\<rparr>))
   \<and> (log_file fs = Some content \<and> int (length content) \<le> max_size_bytes self
      \<and> write_error io = None \<longrightarrow>
    file_send_notification rt self io event fs =
      (True, fs\<lparr>log_file :=
                Some (content @ json_dumps rt False (notification_data event) @ [CHR 0x0A])\<rparr>))
   \<and> (log_file fs = None \<and> write_error io = None \<longrightarrow>
    file_send_notification rt self io event fs =
      (True, fs\<lparr>log_file := Some (json_dumps rt False (notification_data event) @ [CHR 0x0A])\<rparr>))
   \<and> (log_file fs = Some content \<and> rename_error io = Some e \<and> write_error io = None \<longrightarrow>
    file_send_notification rt self io event fs =
      (True, fs\<lparr>log_file :=
                Some (content @ json_dumps rt False (notification_data event) @ [CHR 0x0A])\<rparr>))"
  by (simp add: file_send_rotates file_send_appends_absent file_send_appends_small
      file_send_rename_fails)

text \<open>
  The channel with the ceiling of 10 MiB: a log of one byte more is rotated, a log of
  exactly 10 MiB and an absent log are appended to, and a failing rename leaves the line
  in the old file. The last line is the send after the one that took the log of 10 MiB
  over the ceiling: it rotates.
\<close>

theorem file_channel_rotation_witness:
  "file_send_notification sample_runtime default_file_channel quiet_io sample_event
      log_over_ceiling
    = (True, \<lparr>log_file = Some sample_line,
               backups = [(''logs/notifications.20240101_120000.log'',
                           replicate 10485761 (CHR ''x''))]\<rparr>)
   \<and> file_send_notification sample_runtime default_file_channel quiet_io sample_event
      log_at_ceiling
    = (True, \<lparr>log_file = Some (replicate 10485760 (CHR ''x'') @ sample_line), backups = []\<rparr>)
   \<and> file_send_notification sample_runtime default_file_channel quiet_io sample_event
      \<lparr>log_file = None, backups = []\<rparr>
    = (True, \<lparr>log_file = Some sample_line, backups = []\<rparr>)
   \<and> file_send_notification sample_runtime default_file_channel rename_denied_io sample_event
      log_over_ceiling
    = (True, \<lparr>log_file = Some (replicate 10485761 (CHR ''x'') @ sample_line), backups = []\<rparr>)
   \<and> file_send_notification sample_runtime default_file_channel quiet_io sample_event
      \<lparr>log_file = Some (replicate 10485760 (CHR ''x'') @ sample_line), backups = []\<rparr>
    = (True, \<lparr>log_file = Some sample_line,
               backups = [(''logs/notifications.20240101_120000.log'',
                           replicate 10485760 (CHR ''x'') @ sample_line)]\<rparr>)"
proof -
  have size: "max_size_bytes default_file_channel = 10485760"
    by (simp add: default_file_channel_def FileNotificationChannel_init_def)
  have line: "json_dumps sample_runtime False (notification_data sample_event) @ [CHR 0x0A]
              = sample_line"
    by (rule sample_line_eq)
  have quiet: "rename_error quiet_io = None" "write_error quiet_io = None"
    by (simp_all add: quiet_io_def)
  have denied: "rename_error rename_denied_io = Some (Exception ''Permission denied'')"
    "write_error rename_denied_io = None"
    by (simp_all add: rename_denied_io_def)
  have over: "log_file log_over_ceiling = Some (replicate 10485761 (CHR ''x''))"
    "backups log_over_ceiling = []"
    by (simp_all add: log_over_ceiling_def)
  have at: "log_file log_at_ceiling = Some (replicate 10485760 (CHR ''x''))"
    by (simp add: log_at_ceiling_def)
  show ?thesis
    using
      file_channel_rotation [of log_over_ceiling "replicate 10485761 (CHR ''x'')"
        default_file_channel quiet_io sample_runtime sample_event]
      file_channel_rotation [of log_at_ceiling "replicate 10485760 (CHR ''x'')"
        default_file_channel quiet_io sample_runtime sample_event]
      file_channel_rotation [of "\<lparr>log_file = None, backups = []\<rparr>" "[]"
        default_file_channel quiet_io sample_runtime sample_event]
      file_channel_rotation [of log_over_ceiling "replicate 10485761 (CHR ''x'')"
        default_file_channel rename_denied_io sample_runtime sample_event
        "Exception ''Permission denied''"]
      file_channel_rotation
        [of "\<lparr>log_file = Some (replicate 10485760 (CHR ''x'') @ sample_line), backups = []\<rparr>"
        "replicate 10485760 (CHR ''x'') @ sample_line"
        default_file_channel quiet_io sample_runtime sample_event]
    by (simp add: size line quiet denied over at)
       (use backup_path_eq in
         \<open>simp add: log_over_ceiling_def log_at_ceiling_def sample_line_def\<close>)
qed

text \<open>
  Claim C4 as stated fails: the write that takes a log of exactly 10 MiB over the
  ceiling goes into the original file, and no rotation comes before it.
\<close>

theorem file_channel_rotation_counterexample:
  "file_send_notification sample_runtime default_file_channel quiet_io sample_event
      log_at_ceiling
    = (True, \<lparr>log_file = Some (replicate 10485760 (CHR ''x'') @ sample_line), backups = []\<rparr>)
   \<and> int (length (replicate 10485760 (CHR ''x'') @ sample_line))
       > max_size_bytes default_file_channel"
proof -
  have "file_send_notification sample_runtime default_file_channel quiet_io sample_event
      log_at_ceiling
    = (True, log_at_ceiling\<lparr>log_file := Some (replicate 10485760 (CHR ''x'')
         @ json_dumps sample_runtime False (notification_data sample_event) @ [CHR 0x0A])\<rparr>)"
    by (rule file_send_appends_small)
       (simp_all add: log_at_ceiling_def default_file_channel_def
          FileNotificationChannel_init_def quiet_io_def)
  then show ?thesis
    by (simp add: sample_line_eq log_at_ceiling_def default_file_channel_def
        FileNotificationChannel_init_def sample_line_def)
qed

subsection \<open>The webhook channel\<close>

lemma webhook_attempts_accepted:
  "int attempt < retries self \<Longrightarrow> post attempt payload = Inr response \<Longrightarrow>
   status_code response = 200 \<or> status_code response = 201 \<or> status_code response = 202 \<Longrightarrow>
   webhook_attempts self post payload attempt = (Inr True, [Post attempt payload])"
  by (subst webhook_attempts.simps) auto

lemma webhook_attempts_rejected:
  "int attempt < retries self \<Longrightarrow> post attempt payload = Inr response \<Longrightarrow>
   status_code response \<noteq> 200 \<Longrightarrow> status_code response \<noteq> 201 \<Longrightarrow>
   status_code response \<noteq> 202 \<Longrightarrow>
   webhook_attempts self post payload attempt =
     (fst (webhook_attempts self post payload (Suc attempt)),
      Post attempt payload # snd (webhook_attempts self post payload (Suc attempt)))"
  by (subst webhook_attempts.simps) (simp add: case_prod_unfold)

lemma webhook_attempts_retry:
  "int attempt < retries self - 1 \<Longrightarrow> post attempt payload = Inl (RequestError e) \<Longrightarrow>
   webhook_attempts self post payload attempt =
     (fst (webhook_attempts self post payload (Suc attempt)),
      Post attempt payload # Sleep (2 ^ attempt)
        # snd (webhook_attempts self post payload (Suc attempt)))"
  by (subst webhook_attempts.simps) (simp add: case_prod_unfold)

lemma webhook_attempts_last_error:
  "int attempt = retries self - 1 \<Longrightarrow> post attempt payload = Inl (RequestError e) \<Longrightarrow>
   webhook_attempts self post payload attempt = (Inl (RequestError e), [Post attempt payload])"
  by (subst webhook_attempts.simps) simp

lemma webhook_attempts_past:
  "\<not> int attempt < retries self \<Longrightarrow>
   webhook_attempts self post payload attempt = (Inr False, [])"
  by (subst webhook_attempts.simps) simp

lemma webhook_attempts_all_rejected:
  assumes "\<forall>a. attempt \<le> a \<and> a < nat (retries self) \<longrightarrow>
             (\<exists>response. post a payload = Inr response
                \<and> \<not> (200 \<le> status_code response \<and> status_code response < 300))"
  shows "webhook_attempts self post payload attempt =
           (Inr False, map (\<lambda>a. Post a payload) [attempt..<nat (retries self)])"
  using assms
proof (induction "nat (retries self) - attempt" arbitrary: attempt)
  case 0
  then have "\<not> int attempt < retries self"
    by simp
  then show ?case
    using 0 by (simp add: webhook_attempts_past)
next
  case (Suc d)
  then have lt: "int attempt < retries self" and lt': "attempt < nat (retries self)"
    by simp_all
  with Suc.prems obtain response where
    r: "post attempt payload = Inr response"
       "\<not> (200 \<le> status_code response \<and> status_code response < 300)"
    by blast
  have "d = nat (retries self) - Suc attempt"
    using Suc.hyps(2) by simp
  moreover have "\<forall>a. Suc attempt \<le> a \<and> a < nat (retries self) \<longrightarrow>
             (\<exists>response. post a payload = Inr response
                \<and> \<not> (200 \<le> status_code response \<and> status_code response < 300))"
    using Suc.prems by simp
  ultimately have IH: "webhook_attempts self post payload (Suc attempt) =
           (Inr False, map (\<lambda>a. Post a payload) [Suc attempt..<nat (retries self)])"
    by (rule Suc.hyps(1))
  have "webhook_attempts self post payload attempt =
     (fst (webhook_attempts self post payload (Suc attempt)),
      Post attempt payload # snd (webhook_attempts self post payload (Suc attempt)))"
    using lt r by (intro webhook_attempts_rejected) auto
  then show ?case
    using IH lt' by (simp add: upt_conv_Cons)
qed

lemma webhook_two_errors:
  assumes "retries self = 3"
      and "post 0 payload = Inl (RequestError e0)"
      and "post 1 payload = Inl (RequestError e1)"
  shows "webhook_attempts self post payload 0 =
     (fst (webhook_attempts self post payload 2),
      Post 0 payload # Sleep 1 # Post 1 payload # Sleep 2
        # snd (webhook_attempts self post payload 2))"
proof -
  have "webhook_attempts self post payload 1 =
     (fst (webhook_attempts self post payload (Suc 1)),
      Post 1 payload # Sleep (2 ^ 1) # snd (webhook_attempts self post payload (Suc 1)))"
    using assms by (intro webhook_attempts_retry) simp_all
  moreover have "webhook_attempts self post payload 0 =
     (fst (webhook_attempts self post payload (Suc 0)),
      Post 0 payload # Sleep (2 ^ 0) # snd (webhook_attempts self post payload (Suc 0)))"
    using assms by (intro webhook_attempts_retry) simp_all
  ultimately show ?thesis
    by (simp add: numeral_2_eq_2)
qed

lemma webhook_third_accepted:
  assumes "retries self = 3"
      and "post 0 payload = Inl (RequestError e0)"
      and "post 1 payload = Inl (RequestError e1)"
      and "post 2 payload = Inr response"
      and "status_code response = 200 \<or> status_code response = 201
           \<or> status_code response = 202"
  shows "webhook_attempts self post payload 0 =
     (Inr True, [Post 0 payload, Sleep 1, Post 1 payload, Sleep 2, Post 2 payload])"
proof -
  have "int 2 < retries self"
    using assms(1) by simp
  then have "webhook_attempts self post payload 2 = (Inr True, [Post 2 payload])"
    using assms(4,5) by (rule webhook_attempts_accepted)
  moreover have "webhook_attempts self post payload 0 =
     (fst (webhook_attempts self post payload 2),
      Post 0 payload # Sleep 1 # Post 1 payload # Sleep 2
        # snd (webhook_attempts self post payload 2))"
    using assms(1,2,3) by (rule webhook_two_errors)
  ultimately show ?thesis
    by simp
qed

lemma webhook_third_error:
  assumes "retries self = 3"
      and "post 0 payload = Inl (RequestError e0)"
      and "post 1 payload = Inl (RequestError e1)"
      and "post 2 payload = Inl (RequestError e2)"
  shows "webhook_attempts self post payload 0 =
     (Inl (RequestError e2), [Post 0 payload, Sleep 1, Post 1 payload, Sleep 2, Post 2 payload])"
proof -
  have "int 2 = retries self - 1"
    using assms(1) by simp
  then have "webhook_attempts self post payload 2 = (Inl (RequestError e2), [Post 2 payload])"
    using assms(4) by (rule webhook_attempts_last_error)
  moreover have "webhook_attempts self post payload 0 =
     (fst (webhook_attempts self post payload 2),
      Post 0 payload # Sleep 1 # Post 1 payload # Sleep 2
        # snd (webhook_attempts self post payload 2))"
    using assms(1,2,3) by (rule webhook_two_errors)
  ultimately show ?thesis
    by simp
qed

lemma webhook_third_rejected:
  assumes "retries self = 3"
      and "post 0 payload = Inl (RequestError e0)"
      and "post 1 payload = Inl (RequestError e1)"
      and "post 2 payload = Inr response"
      and "status_code response \<noteq> 200" and "status_code response \<noteq> 201"
      and "status_code response \<noteq> 202"
  shows "webhook_attempts self post payload 0 =
     (Inr False, [Post 0 payload, Sleep 1, Post 1 payload, Sleep 2, Post 2 payload])"
proof -
  have "int 2 < retries self"
    using assms(1) by simp
  then have "webhook_attempts self post payload 2 =
     (fst (webhook_attempts self post payload (Suc 2)),
      Post 2 payload # snd (webhook_attempts self post payload (Suc 2)))"
    using assms(4,5,6,7) by (rule webhook_attempts_rejected)
  moreover have "webhook_attempts self post payload (Suc 2) = (Inr False, [])"
    using assms(1) by (intro webhook_attempts_past) simp
  moreover have "webhook_attempts self post payload 0 =
     (fst (webhook_attempts self post payload 2),
      Post 0 payload # Sleep 1 # Post 1 payload # Sleep 2
        # snd (webhook_attempts self post payload 2))"
    using assms(1,2,3) by (rule webhook_two_errors)
  ultimately show ?thesis
    by simp
qed

subsection \<open>Retries\<close>

text \<open>
  Claim C7 (two network errors, then the third attempt), as amended. With three
  retries, if the first two requests raise a network error, the channel sleeps 1 and
  then 2 seconds after them and makes a third request. If its response has status 200,
  201 or 202 the send returns \<open>True\<close>; if it raises a network error as well the send
  returns \<open>False\<close>. In both cases exactly three requests are made, no sleep follows the
  third, and nothing is raised.
\<close>

theorem webhook_fails_twice:
  assumes "retries self = 3"
      and "post 0 (webhook_payload event) = Inl (RequestError e0)"
      and "post 1 (webhook_payload event) = Inl (RequestError e1)"
  shows "(post 2 (webhook_payload event) = Inr response
          \<and> (status_code response = 200 \<or> status_code response = 201
               \<or> status_code response = 202) \<longrightarrow>
          webhook_send_notification self post event =
            (True, [Post 0 (webhook_payload event), Sleep 1, Post 1 (webhook_payload event),
                    Sleep 2, Post 2 (webhook_payload event)]))
       \<and> (post 2 (webhook_payload event) = Inl (RequestError e2) \<longrightarrow>
          webhook_send_notification self post event =
            (False, [Post 0 (webhook_payload event), Sleep 1, Post 1 (webhook_payload event),
                     Sleep 2, Post 2 (webhook_payload event)]))"
  using assms
  by (simp add: webhook_send_notification_def webhook_third_accepted webhook_third_error)

text \<open>A server that answers the third request with 200, and one that is never reachable.\<close>

theorem webhook_fails_twice_witness:
  "webhook_send_notification default_webhook (fails_twice_then 200) sample_event =
     (True, [Post 0 (webhook_payload sample_event), Sleep 1,
             Post 1 (webhook_payload sample_event), Sleep 2,
             Post 2 (webhook_payload sample_event)])
   \<and> webhook_send_notification default_webhook never_reachable sample_event =
     (False, [Post 0 (webhook_payload sample_event), Sleep 1,
              Post 1 (webhook_payload sample_event), Sleep 2,
              Post 2 (webhook_payload sample_event)])"
  using
    webhook_fails_twice [of default_webhook "fails_twice_then 200" sample_event
      "''connection refused''" "''connection refused''"
      "\<lparr>status_code = 200, text_body = ''''\<rparr>"]
    webhook_fails_twice [of default_webhook never_reachable sample_event
      "''connection refused''" "''connection refused''" _ "''connection refused''"]
  by (simp add: default_webhook_def fails_twice_then_def never_reachable_def)

text \<open>
  Claim C7 as stated fails for a 2xx status outside the accepted list: with 204 as the
  third answer the send makes its three requests and returns \<open>False\<close>.
\<close>

theorem webhook_status_204_counterexample:
  "fails_twice_then 204 0 (webhook_payload sample_event) = Inl (RequestError ''connection refused'')
   \<and> fails_twice_then 204 1 (webhook_payload sample_event) = Inl (RequestError ''connection refused'')
   \<and> fails_twice_then 204 2 (webhook_payload sample_event)
       = Inr \<lparr>status_code = 204, text_body = ''''\<rparr>
   \<and> webhook_send_notification default_webhook (fails_twice_then 204) sample_event =
     (False, [Post 0 (webhook_payload sample_event), Sleep 1,
              Post 1 (webhook_payload sample_event), Sleep 2,
              Post 2 (webhook_payload sample_event)])"
proof -
  have "webhook_attempts default_webhook (fails_twice_then 204) (webhook_payload sample_event) 0
     = (Inr False, [Post 0 (webhook_payload sample_event), Sleep 1,
              Post 1 (webhook_payload sample_event), Sleep 2,
              Post 2 (webhook_payload sample_event)])"
    by (rule webhook_third_rejected [where response = "\<lparr>status_code = 204, text_body = ''''\<rparr>"])
       (simp_all add: default_webhook_def fails_twice_then_def)
  then show ?thesis
    by (simp add: webhook_send_notification_def fails_twice_then_def)
qed

text \<open>
  Claim C10 (every attempt answered with a status outside 2xx). If every request gets
  a response whose status is not in 200..299, the send makes exactly \<open>retries\<close>
  requests, one after the other without any sleep, returns \<open>False\<close> and raises nothing.
\<close>

theorem webhook_all_rejected:
  assumes "\<forall>a < nat (retries self).
             (\<exists>response. post a (webhook_payload event) = Inr response
                \<and> \<not> (200 \<le> status_code response \<and> status_code response < 300))"
  shows "webhook_send_notification self post event =
           (False, map (\<lambda>a. Post a (webhook_payload event)) [0..<nat (retries self)])"
proof -
  have "webhook_attempts self post (webhook_payload event) 0 =
           (Inr False, map (\<lambda>a. Post a (webhook_payload event)) [0..<nat (retries self)])"
    using assms by (intro webhook_attempts_all_rejected) simp
  then show ?thesis
    by (simp add: webhook_send_notification_def)
qed

text \<open>A server that answers every request with 500.\<close>

theorem webhook_all_rejected_witness:
  "webhook_send_notification default_webhook (always_status 500) sample_event =
     (False, [Post 0 (webhook_payload sample_event), Post 1 (webhook_payload sample_event),
              Post 2 (webhook_payload sample_event)])"
proof -
  have "\<forall>a < nat (retries default_webhook).
             (\<exists>response. always_status 500 a (webhook_payload sample_event) = Inr response
                \<and> \<not> (200 \<le> status_code response \<and> status_code response < 300))"
    by (simp add: always_status_def)
  with webhook_all_rejected [of default_webhook "always_status 500" sample_event]
  show ?thesis
    by (simp add: default_webhook_def upt_conv_Cons)
qed

subsection \<open>The notification manager\<close>

lemma send_to_channels_names:
  "map fst (fst (snd (send_to_channels chs event n w))) = map fst chs"
proof (induction chs arbitrary: n w)
  case Nil
  show ?case by simp
next
  case (Cons ch chs)
  obtain name channel where ch: "ch = (name, channel)"
    by (cases ch)
  obtain r w1 where r: "channel event w = (r, w1)"
    by (cases "channel event w")
  show ?case
  proof (cases r)
    case (Inl e)
    with ch r Cons.IH [of n w1] show ?thesis
      by (simp add: case_prod_unfold)
  next
    case (Inr success)
    with ch r Cons.IH [of "if success then n + 1 else n" w1] show ?thesis
      by (simp add: case_prod_unfold)
  qed
qed

lemma send_to_channels_count:
  "fst (send_to_channels chs event n w) =
     n + length (filter (\<lambda>entry. snd entry = Inr True)
                   (fst (snd (send_to_channels chs event n w))))"
proof (induction chs arbitrary: n w)
  case Nil
  show ?case by simp
next
  case (Cons ch chs)
  obtain name channel where ch: "ch = (name, channel)"
    by (cases ch)
  obtain r w1 where r: "channel event w = (r, w1)"
    by (cases "channel event w")
  show ?case
  proof (cases r)
    case (Inl e)
    with ch r Cons.IH [of n w1] show ?thesis
      by (simp add: case_prod_unfold)
  next
    case (Inr success)
    with ch r Cons.IH [of "if success then n + 1 else n" w1] show ?thesis
      by (simp add: case_prod_unfold)
  qed
qed

lemma send_to_channels_world:
  "snd (snd (send_to_channels chs event n w)) =
     foldl (\<lambda>w1 ch. snd (snd ch event w1)) w chs"
proof (induction chs arbitrary: n w)
  case Nil
  show ?case by simp
next
  case (Cons ch chs)
  obtain name channel where ch: "ch = (name, channel)"
    by (cases ch)
  obtain r w1 where r: "channel event w = (r, w1)"
    by (cases "channel event w")
  show ?case
  proof (cases r)
    case (Inl e)
    with ch r Cons.IH [of n w1] show ?thesis
      by (simp add: case_prod_unfold)
  next
    case (Inr success)
    with ch r Cons.IH [of "if success then n + 1 else n" w1] show ?thesis
      by (simp add: case_prod_unfold)
  qed
qed

lemma manager_send_world:
  "snd (snd (snd (manager_send_notification now_iso self event w))) =
     snd (snd (send_to_channels (channels self) event 0 w))"
  by (simp add: manager_send_notification_def Let_def case_prod_unfold)

lemma manager_send_result:
  "fst (manager_send_notification now_iso self event w) =
     (0 < fst (send_to_channels (channels self) event 0 w))"
  by (simp add: manager_send_notification_def Let_def split: prod.splits)

lemma manager_send_logged:
  "fst (snd (manager_send_notification now_iso self event w)) =
     fst (snd (send_to_channels (channels self) event 0 w))"
  by (simp add: manager_send_notification_def Let_def split: prod.splits)

lemma world_before_Suc:
  "world_before (ch # chs) event w (Suc i) = world_before chs event (snd (snd ch event w)) i"
  by (simp add: world_before_def)

lemma channel_outcome_0: "channel_outcome (ch # chs) event w 0 = fst (snd ch event w)"
  by (simp add: channel_outcome_def world_before_def)

lemma channel_outcome_Suc:
  "channel_outcome (ch # chs) event w (Suc i) = channel_outcome chs event (snd (snd ch event w)) i"
  by (simp add: channel_outcome_def world_before_Suc)

lemma send_to_channels_logged:
  "fst (snd (send_to_channels chs event n w)) =
     map (\<lambda>i. (fst (chs ! i), channel_outcome chs event w i)) [0..<length chs]"
proof (induction chs arbitrary: n w)
  case Nil
  show ?case by simp
next
  case (Cons ch chs)
  obtain name channel where ch: "ch = (name, channel)"
    by (cases ch)
  obtain r w1 where r: "channel event w = (r, w1)"
    by (cases "channel event w")
  have upt: "[0..<length (ch # chs)] = 0 # map Suc [0..<length chs]"
    by (simp add: upt_conv_Cons map_Suc_upt del: upt_Suc)
  have tail: "map (\<lambda>i. (fst ((ch # chs) ! i), channel_outcome (ch # chs) event w i))
                  (map Suc [0..<length chs])
              = map (\<lambda>i. (fst (chs ! i), channel_outcome chs event w1 i)) [0..<length chs]"
    using ch r by (simp add: comp_def channel_outcome_Suc)
  have head: "(fst ((ch # chs) ! 0), channel_outcome (ch # chs) event w 0) = (name, r)"
    using ch r by (simp add: channel_outcome_0)
  show ?case
  proof (cases r)
    case (Inl e)
    with ch r Cons.IH [of n w1] show ?thesis
      unfolding upt list.map head tail
      by (simp add: case_prod_unfold)
  next
    case (Inr success)
    with ch r Cons.IH [of "if success then n + 1 else n" w1] show ?thesis
      unfolding upt list.map head tail
      by (simp add: case_prod_unfold)
  qed
qed

lemma send_to_channels_positive:
  "(0 < fst (send_to_channels chs event 0 w)) =
     (\<exists>i<length chs. channel_outcome chs event w i = Inr True)"
proof -
  have "(0 < fst (send_to_channels chs event 0 w)) =
        (\<exists>entry \<in> set (fst (snd (send_to_channels chs event 0 w))). snd entry = Inr True)"
    using send_to_channels_count [of chs event 0 w]
    by (auto simp add: filter_empty_conv)
  also have "\<dots> = (\<exists>i<length chs. channel_outcome chs event w i = Inr True)"
    unfolding send_to_channels_logged by auto
  finally show ?thesis .
qed

subsection \<open>Fan-out\<close>

text \<open>
  Claim C6 (fan-out of the manager). The send returns \<open>True\<close> exactly when the send of
  one of the configured channels, called in the world the channels before it have left,
  returns \<open>True\<close>. Every configured channel is called once, in order, whatever the other
  channels returned or raised: the loop logs for each position the name of the channel
  there with what its send returned or raised, and the world afterwards is the world
  after the sends of all channels. With no channel configured the send returns \<open>False\<close>
  and changes nothing.
\<close>

theorem manager_send_any_channel:
  "fst (manager_send_notification now_iso self event w)
     = (\<exists>i<length (channels self). channel_outcome (channels self) event w i = Inr True)
   \<and> fst (snd (manager_send_notification now_iso self event w))
     = map (\<lambda>i. (fst (channels self ! i), channel_outcome (channels self) event w i))
           [0..<length (channels self)]
   \<and> snd (snd (snd (manager_send_notification now_iso self event w)))
     = world_before (channels self) event w (length (channels self))
   \<and> manager_send_notification now_iso (self\<lparr>channels := []\<rparr>) event w
     = (False, [], self\<lparr>channels := []\<rparr>, w)"
proof -
  have "fst (manager_send_notification now_iso self event w)
     = (\<exists>i<length (channels self). channel_outcome (channels self) event w i = Inr True)"
    by (simp only: manager_send_result send_to_channels_positive)
  moreover have "fst (snd (manager_send_notification now_iso self event w))
     = map (\<lambda>i. (fst (channels self ! i), channel_outcome (channels self) event w i))
           [0..<length (channels self)]"
    by (simp only: manager_send_logged send_to_channels_logged)
  moreover have "snd (snd (snd (manager_send_notification now_iso self event w)))
     = world_before (channels self) event w (length (channels self))"
    by (simp add: manager_send_world send_to_channels_world world_before_def)
  moreover have "manager_send_notification now_iso (self\<lparr>channels := []\<rparr>) event w
     = (False, [], self\<lparr>channels := []\<rparr>, w)"
    by (simp add: manager_send_notification_def)
  ultimately show ?thesis
    by blast
qed

text \<open>
  A manager whose first channel raises, whose second returns \<open>False\<close> and whose third
  delivers: all three are called and the send succeeds. Without the third it fails.
\<close>

theorem manager_send_any_channel_witness:
  "channel_outcome (channels sample_manager) sample_event [] 0 = Inl (Exception ''channel broke'')
   \<and> channel_outcome (channels sample_manager) sample_event [] 1 = Inr False
   \<and> channel_outcome (channels sample_manager) sample_event [] 2 = Inr True
   \<and> fst (manager_send_notification ''2024-01-01T12:00:01'' sample_manager sample_event [])
       = True
   \<and> fst (snd (manager_send_notification ''2024-01-01T12:00:01'' sample_manager sample_event []))
       = [(''webhook'', Inl (Exception ''channel broke'')), (''file'', Inr False),
          (''console'', Inr True)]
   \<and> snd (snd (snd (manager_send_notification ''2024-01-01T12:00:01'' sample_manager
                       sample_event [])))
       = [message sample_event]
   \<and> fst (manager_send_notification ''2024-01-01T12:00:01''
            (sample_manager\<lparr>channels := [(''webhook'', raising_channel),
                                          (''file'', refusing_channel)]\<rparr>) sample_event [])
       = False"
proof -
  have chs: "channels sample_manager =
      [(''webhook'', raising_channel), (''file'', refusing_channel),
       (''console'', delivering_channel)]"
    by (simp add: sample_manager_def)
  have o0: "channel_outcome (channels sample_manager) sample_event [] 0
            = Inl (Exception ''channel broke'')"
    by (simp add: chs channel_outcome_def world_before_def raising_channel_def)
  have o1: "channel_outcome (channels sample_manager) sample_event [] 1 = Inr False"
    by (simp add: chs channel_outcome_def world_before_def raising_channel_def
        refusing_channel_def)
  have o2: "channel_outcome (channels sample_manager) sample_event [] 2 = Inr True"
    by (simp add: chs channel_outcome_def world_before_def raising_channel_def
        refusing_channel_def delivering_channel_def numeral_2_eq_2)
  have w3: "world_before (channels sample_manager) sample_event [] 3 = [message sample_event]"
    by (simp add: chs world_before_def raising_channel_def refusing_channel_def
        delivering_channel_def)
  have upt3: "[0..<3] = [0, 1, 2::nat]"
    by (simp add: upt_conv_Cons)
  have two: "\<not> (\<exists>i<2. channel_outcome
                [(''webhook'', raising_channel), (''file'', refusing_channel)]
                sample_event [] i = Inr True)"
  proof -
    have "channel_outcome [(''webhook'', raising_channel), (''file'', refusing_channel)]
            sample_event [] i \<noteq> Inr True" if "i < 2" for i
    proof -
      from that have "i = 0 \<or> i = 1"
        by auto
      then show ?thesis
        by (auto simp add: channel_outcome_def world_before_def raising_channel_def
            refusing_channel_def)
    qed
    then show ?thesis
      by blast
  qed
  have some: "\<exists>i<3. channel_outcome (channels sample_manager) sample_event [] i = Inr True"
    using o2 by (intro exI [of _ 2]) simp
  have len: "length (channels sample_manager) = 3"
    by (simp add: chs)
  have names: "fst (channels sample_manager ! 0) = ''webhook''"
    "fst (channels sample_manager ! 1) = ''file''"
    "fst (channels sample_manager ! 2) = ''console''"
    by (simp_all add: chs numeral_2_eq_2)
  note all = manager_send_any_channel
    [of "''2024-01-01T12:00:01''" sample_manager sample_event "[]"]
  note all_but_one = manager_send_any_channel
    [of "''2024-01-01T12:00:01''"
        "sample_manager\<lparr>channels := [(''webhook'', raising_channel),
                                      (''file'', refusing_channel)]\<rparr>" sample_event "[]"]
  have r1: "fst (manager_send_notification ''2024-01-01T12:00:01'' sample_manager
                   sample_event []) = True"
    using all [THEN conjunct1] some by (simp only: len)
  have r2: "fst (snd (manager_send_notification ''2024-01-01T12:00:01'' sample_manager
                        sample_event []))
       = [(''webhook'', Inl (Exception ''channel broke'')), (''file'', Inr False),
          (''console'', Inr True)]"
    using all [THEN conjunct2, THEN conjunct1]
    by (simp only: len upt3 list.map names o0 o1 o2)
  have r3: "snd (snd (snd (manager_send_notification ''2024-01-01T12:00:01'' sample_manager
                       sample_event []))) = [message sample_event]"
    using all [THEN conjunct2, THEN conjunct2, THEN conjunct1]
    by (simp only: len w3)
  have r4: "fst (manager_send_notification ''2024-01-01T12:00:01''
            (sample_manager\<lparr>channels := [(''webhook'', raising_channel),
                                          (''file'', refusing_channel)]\<rparr>) sample_event [])
       = False"
    using all_but_one [THEN conjunct1] two by simp
  show ?thesis
    using o0 o1 o2 r1 r2 r3 r4 by simp
qed

end
